theory Spec2Isabelle
  imports Complex_Main "HOL-Library.Log_Nat" "HOL-Library.State_Monad"
begin

section \<open>Numbers\<close>

text \<open>
  The TypeScript sources compute with JavaScript \<^verbatim>\<open>number\<close>s, IEEE-754 doubles; the
  specification speaks of decimals. The functions of the form are translated once, for
  any type \<open>'n\<close> of numbers, and used at two types. The values of the totals (C1, C2, C4,
  C9) are studied in the arithmetic of the code: the type \<open>double\<close> below, with rounding,
  infinities and NaN. The structure of the form and of the documents (C3, C5, C6, C7, C8,
  C10) is studied over exact rationals, the type \<open>number\<close>: there \<open>+\<close>, \<open>*\<close> and \<open>/\<close>
  are exact, and NaN occurs only as the result of \<^verbatim>\<open>parseFloat\<close>, where it is \<open>None\<close>.
\<close>

type_synonym number = rat

section \<open>The stored data\<close>

text \<open>
  The interfaces of \<^verbatim>\<open>pdfGenerator.tsx\<close> and of the invoice pages. A field that may be
  \<^verbatim>\<open>null\<close> is an \<open>option\<close>. The fields \<open>title\<close>, \<open>notes\<close>, \<open>subtotal\<close> and \<open>total\<close> of an
  invoice, and \<open>email\<close> and \<open>phone\<close> of client and profile, are written with the name of
  their record (\<open>Invoice.title\<close>, \<open>Client.email\<close>). The field \<^verbatim>\<open>id\<close> of an invoice is
  \<open>invoice_id\<close> and that of an item \<open>item_id\<close>, since \<open>id\<close> is the identity function.
\<close>

datatype status = draft | sent | paid | overdue

datatype paper = A4 | A5

record Client =
  name :: string
  email :: string
  company :: "string option"
  address :: "string option"
  phone :: "string option"

record Profile =
  full_name :: string
  company_name :: "string option"
  company_address :: "string option"
  phone :: "string option"
  email :: string

record 'n Invoice =
  invoice_id :: string
  invoice_number :: string
  title :: string
  status :: status
  issue_date :: string
  due_date :: string
  subtotal :: 'n
  tax_rate :: 'n
  tax_amount :: 'n
  total :: 'n
  "notes" :: "string option"
  client_id :: string

text \<open>\<^verbatim>\<open>interface InvoiceItem { id; description; quantity; rate; amount }\<close>\<close>

record 'n InvoiceItem =
  item_id :: string
  description :: string
  quantity :: 'n
  rate :: 'n
  amount :: 'n

section \<open>The invoice form (NewInvoice, InvoiceEditor)\<close>

text \<open>
  The form fields held in \<^verbatim>\<open>invoiceData\<close> (NewInvoice names the tax field \<^verbatim>\<open>taxRate\<close>, the
  InvoiceEditor \<^verbatim>\<open>tax_rate\<close>; the code around it is the same).
\<close>

record 'n invoiceData =
  title :: string
  issueDate :: string
  dueDate :: string
  "notes" :: string
  taxRate :: 'n

text \<open>
  The state of the component, as its \<^verbatim>\<open>useState\<close> hooks hold it. The list of clients and
  the fields of the new-client dialogue are left out: no function below reads them.
\<close>

record 'n form_state =
  items :: "'n InvoiceItem list"
  invoiceData :: "'n invoiceData"
  selectedClient :: string
  showNewClientModal :: bool
  loading :: bool

text \<open>
  \<^verbatim>\<open>updateItem(id, field, value)\<close> takes a key of \<^verbatim>\<open>InvoiceItem\<close> and a value. A call is
  represented by the field together with a value of the type the interface declares for it.
  The signature also accepts a value of the other type (a text for the quantity); no call
  site passes one, and such a call is not represented.
\<close>

datatype 'n field_value =
    id_value string
  | description_value string
  | quantity_value 'n
  | rate_value 'n
  | amount_value 'n

text \<open>\<^verbatim>\<open>{ ...item, [field]: value }\<close>\<close>

fun assign :: "'n field_value \<Rightarrow> 'n InvoiceItem \<Rightarrow> 'n InvoiceItem" where
  "assign (id_value v) item = item\<lparr>item_id := v\<rparr>"
| "assign (description_value v) item = item\<lparr>description := v\<rparr>"
| "assign (quantity_value v) item = item\<lparr>quantity := v\<rparr>"
| "assign (rate_value v) item = item\<lparr>rate := v\<rparr>"
| "assign (amount_value v) item = item\<lparr>amount := v\<rparr>"

text \<open>\<^verbatim>\<open>field === 'quantity' || field === 'rate'\<close>\<close>

fun quantity_or_rate :: "'n field_value \<Rightarrow> bool" where
  "quantity_or_rate (quantity_value v) = True"
| "quantity_or_rate (rate_value v) = True"
| "quantity_or_rate fv = False"

text \<open>The body of the callback that \<^verbatim>\<open>updateItem\<close> maps over the items.\<close>

definition updated_item ::
  "string \<Rightarrow> 'n field_value \<Rightarrow> 'n InvoiceItem \<Rightarrow> 'n::times InvoiceItem" where
  "updated_item i fv item =
     (if item_id item = i then
        (let updated = assign fv item in
         if quantity_or_rate fv
         then updated\<lparr>amount := quantity updated * rate updated\<rparr>
         else updated)
      else item)"

text \<open>
  The decimal digits of a natural number: \<^verbatim>\<open>Date.now().toString()\<close>, and the digits that
  \<^verbatim>\<open>toFixed\<close> prints.
\<close>

definition digit :: "nat \<Rightarrow> char" where
  "digit d = ''0123456789'' ! d"

function decimal :: "nat \<Rightarrow> string" where
  "decimal n = (if n < 10 then [digit n] else decimal (n div 10) @ [digit (n mod 10)])"
  by pat_completeness auto
termination
  by (relation "measure (\<lambda>n. n)") auto

declare decimal.simps [simp del]

text \<open>
  \<^verbatim>\<open>addItem\<close>: the new item's id is the clock reading \<^verbatim>\<open>Date.now()\<close> (milliseconds), which the
  model takes as an argument.
\<close>

definition addItem :: "nat \<Rightarrow> 'n form_state \<Rightarrow> 'n::{zero,one} form_state" where
  "addItem now s =
     (let newItem = \<lparr>item_id = decimal now, description = '''', quantity = 1, rate = 0,
                      amount = 0\<rparr>
      in s\<lparr>items := items s @ [newItem]\<rparr>)"

definition removeItem :: "string \<Rightarrow> 'n form_state \<Rightarrow> 'n form_state" where
  "removeItem i s =
     (if length (items s) > 1
      then s\<lparr>items := filter (\<lambda>item. item_id item \<noteq> i) (items s)\<rparr>
      else s)"

definition updateItem ::
  "string \<Rightarrow> 'n field_value \<Rightarrow> 'n form_state \<Rightarrow> 'n::times form_state" where
  "updateItem i fv s = s\<lparr>items := map (updated_item i fv) (items s)\<rparr>"

record 'n totals =
  subtotal :: 'n
  taxAmount :: 'n
  total :: 'n


subsection \<open>The input handlers\<close>

text \<open>
  \<^verbatim>\<open>parseFloat\<close> is the language's own function; the model takes it as a parameter \<open>pf\<close>,
  with \<open>None\<close> for NaN. \<^verbatim>\<open>x || 0\<close> is \<open>0\<close> when \<open>x\<close> is NaN or zero, and \<open>x\<close> otherwise.
\<close>

type_synonym parser = "string \<Rightarrow> number option"

fun or_zero :: "number option \<Rightarrow> number" where
  "or_zero None = 0"
| "or_zero (Some x) = (if x = 0 then 0 else x)"

text \<open>
  The events of the form that touch the items or the tax rate, each with what the JSX
  passes to the handler: the clock reading for the Add Item button, the item's id for its
  remove button and its inputs, the text of the input.
\<close>

datatype event =
    AddItem nat
  | RemoveItem string
  | DescriptionChange string string
  | QuantityChange string string
  | RateChange string string
  | TaxRateChange string

fun handle :: "parser \<Rightarrow> event \<Rightarrow> number form_state \<Rightarrow> number form_state" where
  "handle pf (AddItem now) s = addItem now s"
| "handle pf (RemoveItem i) s = removeItem i s"
| "handle pf (DescriptionChange i v) s = updateItem i (description_value v) s"
| "handle pf (QuantityChange i v) s = updateItem i (quantity_value (or_zero (pf v))) s"
| "handle pf (RateChange i v) s = updateItem i (rate_value (or_zero (pf v))) s"
| "handle pf (TaxRateChange v) s =
     s\<lparr>invoiceData := (invoiceData s)\<lparr>taxRate := or_zero (pf v)\<rparr>\<rparr>"

text \<open>A session of the form: the events in the order they happen.\<close>

definition run ::
  "parser \<Rightarrow> event list \<Rightarrow> number form_state \<Rightarrow> number form_state" where
  "run pf es s = foldl (\<lambda>s e. handle pf e s) s es"

text \<open>
  The initial state of NewInvoice; \<open>today\<close> is
  \<^verbatim>\<open>new Date().toISOString().split('T')[0]\<close>.
\<close>

definition NewInvoice :: "string \<Rightarrow> 'n::{zero,one} form_state" where
  "NewInvoice today =
     \<lparr>items = [\<lparr>item_id = ''1'', description = '''', quantity = 1, rate = 0, amount = 0\<rparr>],
      invoiceData = \<lparr>title = '''', issueDate = today, dueDate = '''', notes = '''',
                     taxRate = 0\<rparr>,
      selectedClient = '''',
      showNewClientModal = False,
      loading = False\<rparr>"

text \<open>
  The initial state of the InvoiceEditor, from its props: the stored invoice and its stored
  items. Its \<^verbatim>\<open>client_id\<close> is kept in \<open>selectedClient\<close>; \<^verbatim>\<open>invoice.notes || ''\<close> is the empty
  text for \<^verbatim>\<open>null\<close>.
\<close>

definition InvoiceEditor :: "'n Invoice \<Rightarrow> 'n InvoiceItem list \<Rightarrow> 'n form_state" where
  "InvoiceEditor invoice initialItems =
     \<lparr>items = initialItems,
      invoiceData = \<lparr>title = Invoice.title invoice, issueDate = issue_date invoice,
                     dueDate = due_date invoice,
                     notes = (case Invoice.notes invoice of None \<Rightarrow> '''' | Some n \<Rightarrow> n),
                     taxRate = tax_rate invoice\<rparr>,
      selectedClient = client_id invoice,
      showNewClientModal = False,
      loading = False\<rparr>"

subsection \<open>Numbers on the page\<close>

text \<open>
  \<^verbatim>\<open>Number.prototype.toFixed\<close>, after its definition in the language standard, on exact
  numbers: the sign is split off; a value of \<open>10^21\<close> or more is printed by the general
  number-to-text conversion (exponent notation), which the model takes as the parameter
  \<open>ToString\<close>; below that, \<open>n\<close> is the integer with \<open>n / 10^f\<close> nearest to \<open>x\<close>, the
  larger one of two, and its digits are padded with zeros to \<open>f + 1\<close> places and split
  by the point before the last \<open>f\<close>. Every call in the sources has \<open>f = 2\<close>; the
  \<^verbatim>\<open>RangeError\<close> of the language for \<open>f\<close> above 100 is left out.
\<close>

definition toFixed :: "(number \<Rightarrow> string) \<Rightarrow> number \<Rightarrow> nat \<Rightarrow> string" where
  "toFixed ToString x0 f =
     (let s = (if x0 < 0 then ''-'' else '''');
          x = (if x0 < 0 then - x0 else x0)
      in if x \<ge> 10 ^ 21 then s @ ToString x
         else
           (let n = nat \<lfloor>x * 10 ^ f + 1 / 2\<rfloor>;
                m = decimal n
            in if f \<noteq> 0 then
                 (let k = length m;
                      m' = (if k \<le> f then replicate (f + 1 - k) (CHR ''0'') @ m else m);
                      k' = (if k \<le> f then f + 1 else k)
                  in s @ take (k' - f) m' @ ''.'' @ drop (k' - f) m')
               else s @ m))"

text \<open>
  What the specification asks of the display, in its words: a value rounded to two
  fractional digits. \<open>cents x\<close> is the number of hundredths nearest to \<open>x\<close> (the larger of
  two), \<open>two_decimals x\<close> its decimal notation with two digits after the point.
\<close>

definition cents :: "number \<Rightarrow> nat" where
  "cents x = nat \<lfloor>x * 100 + 1 / 2\<rfloor>"

definition two_decimals :: "number \<Rightarrow> string" where
  "two_decimals x =
     decimal (cents x div 100) @ ''.'' @ [digit (cents x div 10 mod 10), digit (cents x mod 10)]"

text \<open>
  The item has its amount derived from its quantity and rate; the data model's invariant.
\<close>

definition derived :: "'n::times InvoiceItem \<Rightarrow> bool" where
  "derived item \<longleftrightarrow> amount item = quantity item * rate item"

text \<open>
  The example of the specification as a session of a fresh NewInvoice form: the first item
  gets quantity 2 and rate 50, a second item is added (quantity 1) and gets rate 100, the
  tax rate is set to 10. Of \<^verbatim>\<open>parseFloat\<close> only its values on the four texts typed matter.
\<close>

definition example_parser :: parser where
  "example_parser v =
     (if v = ''2'' then Some 2 else if v = ''50'' then Some 50
      else if v = ''100'' then Some 100 else if v = ''10'' then Some 10 else None)"

definition example_session :: "event list" where
  "example_session =
     [QuantityChange ''1'' ''2'', RateChange ''1'' ''50'', AddItem 1700000000000,
      RateChange ''1700000000000'' ''100'', TaxRateChange ''10'']"


text \<open>
  Two clicks on Add Item within one reading of the millisecond clock, then a click on the
  remove button of the first item and one on the remove button of an added item. Each
  remove button is on the page when it is clicked: the list has three, then two items.
\<close>

definition colliding_session :: "event list" where
  "colliding_session =
     [AddItem 1700000000000, AddItem 1700000000000, RemoveItem ''1'',
      RemoveItem ''1700000000000'']"

text \<open>
  A session in which every Add Item reads a clock value whose digits are not the id of an
  item of the list at that moment.
\<close>

fun fresh_ids :: "parser \<Rightarrow> event list \<Rightarrow> number form_state \<Rightarrow> bool" where
  "fresh_ids pf [] s = True"
| "fresh_ids pf (e # es) s =
     ((case e of AddItem now \<Rightarrow> decimal now \<notin> set (map item_id (items s)) | _ \<Rightarrow> True) \<and>
      fresh_ids pf es (handle pf e s))"

text \<open>A stored invoice, as the pages read it from the table of invoices.\<close>

definition example_invoice :: "number Invoice" where
  "example_invoice =
     \<lparr>invoice_id = ''inv-1'', invoice_number = ''INV-1700000000000'',
      Invoice.title = ''Website'', status = sent, issue_date = ''2026-01-15'',
      due_date = ''2026-02-15'', Invoice.subtotal = 200, tax_rate = 10, tax_amount = 20,
      Invoice.total = 220, Invoice.notes = Some ''Net 30'', client_id = ''client-7''\<rparr>"

section \<open>The invoice document (pdfGenerator)\<close>

text \<open>
  A style is a list of attributes with their values, numbers or texts; \<open>createStyles\<close>
  returns the styles by name, as the object passed to \<^verbatim>\<open>StyleSheet.create\<close> has them.
\<close>

datatype style_value = Num number | Str string

type_synonym style = "(string \<times> style_value) list"

definition createStyles :: "paper \<Rightarrow> (string \<times> style) list" where
  "createStyles format =
     (let isA5 = (format = A5) in
      [(''page'',
          [(''flexDirection'', Str ''column''), (''backgroundColor'', Str ''#fff''),
           (''padding'', Num (if isA5 then 20 else 40)),
           (''fontSize'', Num (if isA5 then 9 else 12)),
           (''fontFamily'', Str ''Helvetica'')]),
       (''header'',
          [(''flexDirection'', Str ''row''), (''justifyContent'', Str ''space-between''),
           (''alignItems'', Str ''flex-start''),
           (''marginBottom'', Num (if isA5 then 18 else 28)),
           (''borderBottomWidth'', Num 2), (''borderBottomColor'', Str ''#e5e7eb''),
           (''paddingBottom'', Num (if isA5 then 8 else 12))]),
       (''logoBox'',
          [(''flex'', Num 1), (''justifyContent'', Str ''flex-start'')]),
       (''companyInfo'',
          [(''flex'', Num 1), (''alignItems'', Str ''flex-end''), (''textAlign'', Str ''right'')]),
       (''companyName'',
          [(''fontSize'', Num (if isA5 then 13 else 18)), (''fontWeight'', Str ''bold''),
           (''color'', Str ''#1e293b''), (''marginBottom'', Num 2)]),
       (''companyDetails'',
          [(''fontSize'', Num (if isA5 then 8 else 10)), (''color'', Str ''#64748b''),
           (''marginBottom'', Num 1)]),
       (''invoiceInfo'',
          [(''flex'', Num 1), (''alignItems'', Str ''flex-end''), (''textAlign'', Str ''right'')]),
       (''invoiceTitle'',
          [(''fontSize'', Num (if isA5 then 16 else 22)), (''fontWeight'', Str ''bold''),
           (''color'', Str ''#1e293b''), (''marginBottom'', Num 2)]),
       (''invoiceNumber'',
          [(''fontSize'', Num (if isA5 then 9 else 12)), (''color'', Str ''#64748b''),
           (''marginBottom'', Num 2)]),
       (''statusBadge'',
          [(''fontSize'', Num (if isA5 then 8 else 10)), (''fontWeight'', Str ''bold''),
           (''color'', Str ''#fff''), (''backgroundColor'', Str ''#64748b''),
           (''borderRadius'', Num 4), (''paddingHorizontal'', Num 8),
           (''paddingVertical'', Num 2), (''alignSelf'', Str ''flex-end''),
           (''marginTop'', Num 2)]),
       (''section'',
          [(''flexDirection'', Str ''row''), (''justifyContent'', Str ''space-between''),
           (''marginTop'', Num (if isA5 then 10 else 18)),
           (''marginBottom'', Num (if isA5 then 10 else 18))]),
       (''billTo'',
          [(''flex'', Num 1), (''marginRight'', Num (if isA5 then 10 else 30))]),
       (''billToTitle'',
          [(''fontWeight'', Str ''bold''), (''color'', Str ''#374151''),
           (''fontSize'', Num (if isA5 then 9 else 11)), (''marginBottom'', Num 3)]),
       (''billToDetails'',
          [(''fontSize'', Num (if isA5 then 8 else 10)), (''color'', Str ''#374151''),
           (''lineHeight'', Num (14 / 10))]),
       (''invoiceDetails'',
          [(''flex'', Num 1), (''alignItems'', Str ''flex-end''), (''textAlign'', Str ''right'')]),
       (''detailsRow'',
          [(''flexDirection'', Str ''row''), (''justifyContent'', Str ''space-between''),
           (''marginBottom'', Num 2)]),
       (''detailsLabel'',
          [(''fontSize'', Num (if isA5 then 8 else 10)), (''color'', Str ''#64748b''),
           (''minWidth'', Num 60)]),
       (''detailsValue'',
          [(''fontSize'', Num (if isA5 then 8 else 10)), (''fontWeight'', Str ''bold''),
           (''color'', Str ''#1e293b'')]),
       (''table'',
          [(''marginTop'', Num (if isA5 then 6 else 12)),
           (''marginBottom'', Num (if isA5 then 12 else 18))]),
       (''tableHeader'',
          [(''flexDirection'', Str ''row''), (''backgroundColor'', Str ''#f1f5f9''),
           (''borderTopWidth'', Num 1), (''borderBottomWidth'', Num 1),
           (''borderColor'', Str ''#e5e7eb''),
           (''paddingVertical'', Num (if isA5 then 4 else 6))]),
       (''tableHeaderCell'',
          [(''fontWeight'', Str ''bold''), (''color'', Str ''#374151''),
           (''fontSize'', Num (if isA5 then 8 else 10)), (''flex'', Num 1),
           (''textAlign'', Str ''center'')]),
       (''tableRow'',
          [(''flexDirection'', Str ''row''), (''borderBottomWidth'', Num 1),
           (''borderBottomColor'', Str ''#e5e7eb''),
           (''paddingVertical'', Num (if isA5 then 3 else 5))]),
       (''tableCell'',
          [(''fontSize'', Num (if isA5 then 8 else 10)), (''color'', Str ''#374151''),
           (''flex'', Num 1), (''textAlign'', Str ''center'')]),
       (''descriptionColumn'',
          [(''flex'', Num 2), (''textAlign'', Str ''left''), (''paddingLeft'', Num 4)]),
       (''totalsSection'',
          [(''alignSelf'', Str ''flex-end''), (''width'', Num (if isA5 then 140 else 200)),
           (''marginTop'', Num (if isA5 then 8 else 12)),
           (''marginBottom'', Num (if isA5 then 10 else 16))]),
       (''totalRow'',
          [(''flexDirection'', Str ''row''), (''justifyContent'', Str ''space-between''),
           (''marginBottom'', Num 2)]),
       (''totalLabel'',
          [(''fontSize'', Num (if isA5 then 8 else 10)), (''color'', Str ''#64748b'')]),
       (''totalValue'',
          [(''fontSize'', Num (if isA5 then 8 else 10)), (''fontWeight'', Str ''bold''),
           (''color'', Str ''#1e293b'')]),
       (''grandTotalRow'',
          [(''flexDirection'', Str ''row''), (''justifyContent'', Str ''space-between''),
           (''borderTopWidth'', Num 1), (''borderTopColor'', Str ''#e5e7eb''),
           (''marginTop'', Num 4), (''paddingTop'', Num 4)]),
       (''grandTotalLabel'',
          [(''fontSize'', Num (if isA5 then 10 else 13)), (''fontWeight'', Str ''bold''),
           (''color'', Str ''#1e293b'')]),
       (''grandTotalValue'',
          [(''fontSize'', Num (if isA5 then 10 else 13)), (''fontWeight'', Str ''bold''),
           (''color'', Str ''#1e293b'')]),
       (''notesSection'',
          [(''marginTop'', Num (if isA5 then 10 else 18)),
           (''padding'', Num (if isA5 then 6 else 10)),
           (''backgroundColor'', Str ''#f9fafb''), (''borderRadius'', Num 4)]),
       (''notesTitle'',
          [(''fontWeight'', Str ''bold''), (''color'', Str ''#374151''),
           (''fontSize'', Num (if isA5 then 9 else 11)), (''marginBottom'', Num 2)]),
       (''notesText'',
          [(''fontSize'', Num (if isA5 then 8 else 10)), (''color'', Str ''#4b5563''),
           (''lineHeight'', Num (14 / 10))])])"

text \<open>\<^verbatim>\<open>styles.name\<close>: the style of that name, no attributes if there is none.\<close>

definition style_of :: "(string \<times> style) list \<Rightarrow> string \<Rightarrow> style" where
  "style_of styles n = (case map_of styles n of Some st \<Rightarrow> st | None \<Rightarrow> [])"

text \<open>
  The elements of the document: \<^verbatim>\<open>Document\<close>, \<^verbatim>\<open>Page\<close> with its size and style, \<^verbatim>\<open>View\<close>
  with its style, \<^verbatim>\<open>Text\<close> with its styles (one, or an array of them) and its text.
\<close>

datatype node =
    Document "node list"
  | Page paper style "node list"
  | View style "node list"
  | Text "style list" string

text \<open>
  The functions of the host that the component calls: the conversion of a number to text
  (a number among the children of an element, and \<open>toFixed\<close> from \<open>10^21\<close> on), and
  \<^verbatim>\<open>new Date(s).toLocaleDateString('en-US', {year: 'numeric', month: 'short', day: 'numeric'})\<close>.
\<close>

record host =
  ToString :: "number \<Rightarrow> string"
  toLocaleDateString :: "string \<Rightarrow> string"

definition formatDate :: "host \<Rightarrow> string \<Rightarrow> string" where
  "formatDate h dateString = toLocaleDateString h dateString"

text \<open>The text of a status, as the stored invoice has it.\<close>

fun status_text :: "status \<Rightarrow> string" where
  "status_text draft = ''draft''"
| "status_text sent = ''sent''"
| "status_text paid = ''paid''"
| "status_text overdue = ''overdue''"

definition getStatusColor :: "string \<Rightarrow> string" where
  "getStatusColor st =
     (if st = ''paid'' then ''#10b981''
      else if st = ''sent'' then ''#f59e0b''
      else if st = ''overdue'' then ''#ef4444''
      else ''#64748b'')"

text \<open>\<^verbatim>\<open>toUpperCase\<close> on the letters a to z; other characters stay.\<close>

definition toUpperCase :: "string \<Rightarrow> string" where
  "toUpperCase =
     map (\<lambda>c. case map_of (zip ''abcdefghijklmnopqrstuvwxyz'' ''ABCDEFGHIJKLMNOPQRSTUVWXYZ'') c of
                 Some u \<Rightarrow> u | None \<Rightarrow> c)"

text \<open>\<^verbatim>\<open>a || b\<close> on texts that may be \<^verbatim>\<open>null\<close>: \<open>b\<close> when \<open>a\<close> is \<^verbatim>\<open>null\<close> or empty.\<close>

fun or_else :: "string option \<Rightarrow> string \<Rightarrow> string" where
  "or_else None b = b"
| "or_else (Some a) b = (if a = '''' then b else a)"

text \<open>
  \<^verbatim>\<open>{a && <Text ...>{a}</Text>}\<close>: the element when \<open>a\<close> is a text that is not empty, nothing
  to show otherwise.
\<close>

fun when_present :: "string option \<Rightarrow> (string \<Rightarrow> node) \<Rightarrow> node list" where
  "when_present None element = []"
| "when_present (Some a) element = (if a = '''' then [] else [element a])"

definition InvoicePDF ::
  "host \<Rightarrow> number Invoice \<Rightarrow> Client \<Rightarrow> Profile \<Rightarrow> number InvoiceItem list \<Rightarrow> paper \<Rightarrow> node"
  where
  "InvoicePDF h invoice client profile items' format =
     (let styles = style_of (createStyles format) in
      Document
       [Page format (styles ''page'')
         ([View (styles ''header'')
            [View (styles ''logoBox'')
              ([Text [styles ''companyName'']
                  (or_else (company_name profile) (full_name profile))] @
               when_present (company_address profile) (Text [styles ''companyDetails'']) @
               when_present (Profile.phone profile) (Text [styles ''companyDetails'']) @
               [Text [styles ''companyDetails''] (Profile.email profile)]),
             View (styles ''invoiceInfo'')
              [Text [styles ''invoiceTitle''] ''INVOICE'',
               Text [styles ''invoiceNumber''] (''#'' @ invoice_number invoice),
               Text [styles ''statusBadge'',
                     [(''backgroundColor'',
                       Str (getStatusColor (status_text (status invoice))))]]
                  (toUpperCase (status_text (status invoice)))]],
           View (styles ''section'')
            [View (styles ''billTo'')
              ([Text [styles ''billToTitle''] ''Bill To'',
                Text [styles ''billToDetails''] (Client.name client)] @
               when_present (company client) (Text [styles ''billToDetails'']) @
               when_present (address client) (Text [styles ''billToDetails'']) @
               when_present (Client.phone client) (Text [styles ''billToDetails'']) @
               [Text [styles ''billToDetails''] (Client.email client)]),
             View (styles ''invoiceDetails'')
              [View (styles ''detailsRow'')
                [Text [styles ''detailsLabel''] ''Issue Date:'',
                 Text [styles ''detailsValue''] (formatDate h (issue_date invoice))],
               View (styles ''detailsRow'')
                [Text [styles ''detailsLabel''] ''Due Date:'',
                 Text [styles ''detailsValue''] (formatDate h (due_date invoice))]]],
           View (styles ''table'')
            (View (styles ''tableHeader'')
              [Text [styles ''tableHeaderCell'', styles ''descriptionColumn''] ''Description'',
               Text [styles ''tableHeaderCell''] ''Qty'',
               Text [styles ''tableHeaderCell''] ''Rate'',
               Text [styles ''tableHeaderCell''] ''Amount''] #
             map (\<lambda>item.
                View (styles ''tableRow'')
                 [Text [styles ''tableCell'', styles ''descriptionColumn''] (description item),
                  Text [styles ''tableCell''] (ToString h (quantity item)),
                  Text [styles ''tableCell''] (''$'' @ toFixed (ToString h) (rate item) 2),
                  Text [styles ''tableCell''] (''$'' @ toFixed (ToString h) (amount item) 2)])
               items'),
           View (styles ''totalsSection'')
            [View (styles ''totalRow'')
              [Text [styles ''totalLabel''] ''Subtotal:'',
               Text [styles ''totalValue'']
                 (''$'' @ toFixed (ToString h) (Invoice.subtotal invoice) 2)],
             View (styles ''totalRow'')
              [Text [styles ''totalLabel'']
                 (''Tax ('' @ ToString h (tax_rate invoice) @ ''%):''),
               Text [styles ''totalValue'']
                 (''$'' @ toFixed (ToString h) (tax_amount invoice) 2)],
             View (styles ''grandTotalRow'')
              [Text [styles ''grandTotalLabel''] ''Total:'',
               Text [styles ''grandTotalValue'']
                 (''$'' @ toFixed (ToString h) (Invoice.total invoice) 2)]]] @
          when_present (Invoice.notes invoice)
            (\<lambda>n. View (styles ''notesSection'')
                   [Text [styles ''notesTitle''] ''Notes'',
                    Text [styles ''notesText''] n]))])"

subsection \<open>Download and print\<close>

text \<open>
  \<^verbatim>\<open>pdf(doc).toBlob()\<close> is the renderer of the PDF library; the model takes it as the
  parameter \<open>toBlob\<close>, an error (\<open>Inl\<close>) where its promise is rejected. An \<^verbatim>\<open>await\<close> on a
  rejected promise rejects the promise of the function around it.
\<close>

definition generateInvoicePDF ::
  "(node \<Rightarrow> 'e + 'b) \<Rightarrow> host \<Rightarrow> number Invoice \<Rightarrow> Client \<Rightarrow> Profile \<Rightarrow>
     number InvoiceItem list \<Rightarrow> paper
     \<Rightarrow> 'e + 'b" where
  "generateInvoicePDF toBlob h invoice client profile items' format =
     (let doc = InvoicePDF h invoice client profile items' format in toBlob doc)"

text \<open>What \<open>downloadInvoicePDF\<close> does to the page, in order.\<close>

datatype 'b download_effect =
    CreateObjectURL 'b
  | AppendLink string
  | Click
  | RemoveLink
  | RevokeObjectURL

fun paper_name :: "paper \<Rightarrow> string" where
  "paper_name A4 = ''A4''"
| "paper_name A5 = ''A5''"

definition downloadInvoicePDF ::
  "(node \<Rightarrow> 'e + 'b) \<Rightarrow> host \<Rightarrow> number Invoice \<Rightarrow> Client \<Rightarrow> Profile \<Rightarrow>
     number InvoiceItem list \<Rightarrow> paper
     \<Rightarrow> 'e + 'b download_effect list" where
  "downloadInvoicePDF toBlob h invoice client profile items' format =
     (case generateInvoicePDF toBlob h invoice client profile items' format of
        Inl e \<Rightarrow> Inl e
      | Inr blob \<Rightarrow>
          Inr [CreateObjectURL blob,
               AppendLink (''invoice-'' @ invoice_number invoice @ ''-'' @ paper_name format
                           @ ''.pdf''),
               Click, RemoveLink, RevokeObjectURL])"

text \<open>
  \<open>printInvoice\<close> reads two things of the browser: whether \<^verbatim>\<open>window.open\<close> returns a window
  (it returns \<^verbatim>\<open>null\<close> when the browser blocks it), and the element with id
  \<^verbatim>\<open>invoice-content\<close>, of which it takes the inner HTML; \<open>None\<close> when the page has no such
  element.
\<close>

record browser =
  window_open :: bool
  invoice_content :: "string option"

text \<open>
  The document written into the print window: of the template, the parts that are not
  fixed text.
\<close>

record print_document =
  page_size :: paper
  page_margin :: string
  body_font_size :: string
  body_content :: string

datatype print_effect =
    OpenWindow
  | Write print_document
  | CloseDocument
  | Focus
  | Print
  | CloseWindow

text \<open>
  The function has no \<^verbatim>\<open>throw\<close> and no \<^verbatim>\<open>catch\<close>, and returns nothing; the result is what
  it has done to the browser. The error side of the result is there for the statement that
  it reports failures, and no branch of the code produces it.
\<close>

definition printInvoice :: "browser \<Rightarrow> paper \<Rightarrow> string + print_effect list" where
  "printInvoice b format =
     (if window_open b then
        (case invoice_content b of
           Some innerHTML \<Rightarrow>
             Inr [OpenWindow,
                  Write \<lparr>page_size = format,
                         page_margin = (if format = A5 then ''15mm'' else ''20mm''),
                         body_font_size = (if format = A5 then ''10px'' else ''12px''),
                         body_content = innerHTML\<rparr>,
                  CloseDocument, Focus, Print, CloseWindow]
         | None \<Rightarrow> Inr [OpenWindow])
      else Inr [])"

subsection \<open>Content and layout of a document\<close>

text \<open>The texts of a document, in reading order.\<close>

fun texts :: "node \<Rightarrow> string list" where
  "texts (Document ns) = concat (map texts ns)"
| "texts (Page sz st ns) = concat (map texts ns)"
| "texts (View st ns) = concat (map texts ns)"
| "texts (Text sts t) = [t]"

text \<open>The structure of a document without its styles and its paper size.\<close>

datatype outline =
    Document_outline "outline list"
  | Page_outline "outline list"
  | View_outline "outline list"
  | Text_outline string

fun outline_of :: "node \<Rightarrow> outline" where
  "outline_of (Document ns) = Document_outline (map outline_of ns)"
| "outline_of (Page sz st ns) = Page_outline (map outline_of ns)"
| "outline_of (View st ns) = View_outline (map outline_of ns)"
| "outline_of (Text sts t) = Text_outline t"

text \<open>
  The attributes of scale, margin and font size: the layout metrics in which the styles of
  the two paper sizes may differ.
\<close>

definition metrics :: "string list" where
  "metrics =
     [''padding'', ''paddingBottom'', ''paddingVertical'', ''fontSize'', ''marginTop'',
      ''marginBottom'', ''marginRight'', ''width'']"

text \<open>
  Two styles with the same attributes in the same order, with the same values except
  for numbers at attributes that are metrics.
\<close>

fun same_attribute :: "string \<times> style_value \<Rightarrow> string \<times> style_value \<Rightarrow> bool" where
  "same_attribute (k, Num v) (k', Num v') = (k = k' \<and> (v = v' \<or> k \<in> set metrics))"
| "same_attribute (k, Str v) (k', Str v') = (k = k' \<and> v = v')"
| "same_attribute a b = False"

definition same_but_metrics ::
  "(string \<times> style) list \<Rightarrow> (string \<times> style) list \<Rightarrow> bool" where
  "same_but_metrics ss ss' =
     list_all2 (\<lambda>(n, st) (n', st'). n = n' \<and> list_all2 same_attribute st st') ss ss'"

text \<open>
  Two documents of the same layout: the same elements in the same order, element by
  element the same styles but for the numbers of the metrics, and the same texts. The
  paper size of a page is free.
\<close>

definition same_style :: "style \<Rightarrow> style \<Rightarrow> bool" where
  "same_style st st' = list_all2 same_attribute st st'"

inductive same_layout :: "node \<Rightarrow> node \<Rightarrow> bool" where
  Document: "list_all2 same_layout ns ns' \<Longrightarrow> same_layout (Document ns) (Document ns')"
| Page: "same_style st st' \<Longrightarrow> list_all2 same_layout ns ns' \<Longrightarrow>
         same_layout (Page sz st ns) (Page sz' st' ns')"
| View: "same_style st st' \<Longrightarrow> list_all2 same_layout ns ns' \<Longrightarrow>
         same_layout (View st ns) (View st' ns')"
| Text: "list_all2 same_style sts sts' \<Longrightarrow> same_layout (Text sts t) (Text sts' t)"

text \<open>The contents written by a run of \<open>printInvoice\<close>.\<close>

fun written :: "print_effect \<Rightarrow> string list" where
  "written (Write d) = [body_content d]"
| "written e = []"

definition print_content :: "string + print_effect list \<Rightarrow> string list" where
  "print_content r = (case r of Inl e \<Rightarrow> [] | Inr es \<Rightarrow> concat (map written es))"

subsection \<open>Data of the examples\<close>

text \<open>
  The number-to-text conversion of the language on the numbers of the examples: a whole
  number that is not negative prints its digits, \<open>10^21\<close> prints as \<^verbatim>\<open>1e+21\<close>.
\<close>

definition example_ToString :: "number \<Rightarrow> string" where
  "example_ToString x =
     (if x = 10 ^ 21 then ''1e+21''
      else if 0 \<le> x \<and> of_int \<lfloor>x\<rfloor> = x then decimal (nat \<lfloor>x\<rfloor>) else ''?'')"

text \<open>
  A host, a client, an issuer and two items for the example invoice; a renderer whose
  promise is rejected; a browser that blocks the print window; a page without the
  invoice element.
\<close>

definition example_host :: host where
  "example_host =
     \<lparr>ToString = example_ToString,
      toLocaleDateString =
        (\<lambda>d. if d = ''2026-01-15'' then ''Jan 15, 2026''
             else if d = ''2026-02-15'' then ''Feb 15, 2026'' else ''Invalid Date'')\<rparr>"

definition example_client :: Client where
  "example_client =
     \<lparr>Client.name = ''Ada Lovelace'', Client.email = ''ada@example.com'',
      company = Some ''Analytical Engines'', address = None, Client.phone = Some ''''\<rparr>"

definition example_profile :: Profile where
  "example_profile =
     \<lparr>full_name = ''Grace Hopper'', company_name = None,
      company_address = Some ''1 Harbour Road'', Profile.phone = None,
      Profile.email = ''grace@example.com''\<rparr>"

definition example_line_items :: "number InvoiceItem list" where
  "example_line_items =
     [\<lparr>item_id = ''item-1'', description = ''Design'', quantity = 2, rate = 50,
       amount = 100\<rparr>,
      \<lparr>item_id = ''item-2'', description = ''Hosting'', quantity = 1, rate = 100,
       amount = 100\<rparr>]"

definition failing_renderer :: "node \<Rightarrow> string + nat" where
  "failing_renderer doc = Inl ''render failed''"

definition blocked_browser :: browser where
  "blocked_browser = \<lparr>window_open = False, invoice_content = Some ''<h1>INVOICE</h1>''\<rparr>"

definition empty_page_browser :: browser where
  "empty_page_browser = \<lparr>window_open = True, invoice_content = None\<rparr>"

section \<open>The arithmetic of the code\<close>

text \<open>
  A JavaScript \<^verbatim>\<open>number\<close> is an IEEE-754 double: a finite value, one of the two
  infinities, or NaN. A finite double is represented by the rational it stands for. The
  two zeros are one value here: the code divides only by the constant 100 and shows a
  number only through \<^verbatim>\<open>toFixed\<close> and \<^verbatim>\<open>>=\<close>, which do not tell the zeros apart.
\<close>

datatype double = Finite rat | PlusInfinity | MinusInfinity | NaN

text \<open>
  The binade of a positive rational \<open>a\<close>: the exponent \<open>e\<close> with \<open>2^e \<le> a < 2^(e+1)\<close>,
  from the number of bits of its integer part, or of the integer part of its inverse.
\<close>

definition binade :: "rat \<Rightarrow> int" where
  "binade a = (if 1 \<le> a then bitlen \<lfloor>a\<rfloor> - 1 else - bitlen (\<lceil>1 / a\<rceil> - 1))"

text \<open>The integer nearest to a rational, the even one of two.\<close>

definition round_half_even :: "rat \<Rightarrow> int" where
  "round_half_even y =
     (let f = \<lfloor>y\<rfloor>; d = y - of_int f
      in if d < 1 / 2 then f else if 1 / 2 < d then f + 1 else if even f then f else f + 1)"

text \<open>
  The double of an exact result, in the rounding mode of the language (to nearest, ties
  to even): the result is rounded to a multiple of the unit in the last of 53 binary
  digits; below \<open>2^-1022\<close> the unit stays \<open>2^-1074\<close> (subnormal numbers); a rounded
  value of \<open>2^1024\<close> or more is an infinity.
\<close>

definition round_double :: "rat \<Rightarrow> double" where
  "round_double x =
     (if x = 0 then Finite 0
      else
        (let a = \<bar>x\<bar>;
             e = max (binade a) (- 1022);
             u = 2 powi (e - 52);
             y = of_int (round_half_even (a / u)) * u
         in if 2 ^ 1024 \<le> y then (if x < 0 then MinusInfinity else PlusInfinity)
            else Finite (if x < 0 then - y else y)))"

text \<open>
  The operators \<^verbatim>\<open>+\<close>, \<^verbatim>\<open>*\<close> and \<^verbatim>\<open>/\<close> of the language on doubles. On finite values the
  exact result is rounded; NaN gives NaN; the infinities follow the standard
  (\<open>\<infinity> - \<infinity>\<close>, \<open>0 * \<infinity>\<close>, \<open>\<infinity> / \<infinity>\<close> and \<open>0 / 0\<close> are NaN). A zero divisor counts as
  the positive zero.
\<close>

instantiation double :: "{zero,one,plus,times,inverse}"
begin

definition zero_double :: double where
  "zero_double = Finite 0"

definition one_double :: double where
  "one_double = Finite 1"

fun plus_double :: "double \<Rightarrow> double \<Rightarrow> double" where
  "plus_double (Finite a) (Finite b) = round_double (a + b)"
| "plus_double NaN y = NaN"
| "plus_double x NaN = NaN"
| "plus_double PlusInfinity MinusInfinity = NaN"
| "plus_double MinusInfinity PlusInfinity = NaN"
| "plus_double PlusInfinity y = PlusInfinity"
| "plus_double x PlusInfinity = PlusInfinity"
| "plus_double MinusInfinity y = MinusInfinity"
| "plus_double x MinusInfinity = MinusInfinity"

fun times_double :: "double \<Rightarrow> double \<Rightarrow> double" where
  "times_double (Finite a) (Finite b) = round_double (a * b)"
| "times_double NaN y = NaN"
| "times_double x NaN = NaN"
| "times_double (Finite a) PlusInfinity =
     (if a = 0 then NaN else if 0 < a then PlusInfinity else MinusInfinity)"
| "times_double (Finite a) MinusInfinity =
     (if a = 0 then NaN else if 0 < a then MinusInfinity else PlusInfinity)"
| "times_double PlusInfinity (Finite b) =
     (if b = 0 then NaN else if 0 < b then PlusInfinity else MinusInfinity)"
| "times_double MinusInfinity (Finite b) =
     (if b = 0 then NaN else if 0 < b then MinusInfinity else PlusInfinity)"
| "times_double PlusInfinity PlusInfinity = PlusInfinity"
| "times_double PlusInfinity MinusInfinity = MinusInfinity"
| "times_double MinusInfinity PlusInfinity = MinusInfinity"
| "times_double MinusInfinity MinusInfinity = PlusInfinity"

fun divide_double :: "double \<Rightarrow> double \<Rightarrow> double" where
  "divide_double (Finite a) (Finite b) =
     (if b = 0 then (if a = 0 then NaN else if 0 < a then PlusInfinity else MinusInfinity)
      else round_double (a / b))"
| "divide_double NaN y = NaN"
| "divide_double x NaN = NaN"
| "divide_double (Finite a) y = Finite 0"
| "divide_double PlusInfinity (Finite b) = (if 0 \<le> b then PlusInfinity else MinusInfinity)"
| "divide_double MinusInfinity (Finite b) = (if 0 \<le> b then MinusInfinity else PlusInfinity)"
| "divide_double x y = NaN"

definition inverse_double :: "double \<Rightarrow> double" where
  "inverse_double x = divide (Finite 1) x"

instance ..

end

text \<open>\<^verbatim>\<open>x >= 0\<close> on doubles: false for NaN.\<close>

fun nonnegative :: "double \<Rightarrow> bool" where
  "nonnegative (Finite a) = (0 \<le> a)"
| "nonnegative PlusInfinity = True"
| "nonnegative x = False"

text \<open>A finite double that is not negative; a finite double from 0 to 100.\<close>

fun finite_nonnegative :: "double \<Rightarrow> bool" where
  "finite_nonnegative (Finite a) = (0 \<le> a)"
| "finite_nonnegative x = False"

fun percentage :: "double \<Rightarrow> bool" where
  "percentage (Finite a) = (0 \<le> a \<and> a \<le> 100)"
| "percentage x = False"

subsection \<open>The form on doubles\<close>

text \<open>
  \<^verbatim>\<open>parseFloat\<close> returns a double, NaN for a text it cannot read. \<^verbatim>\<open>x || 0\<close> is 0 when
  \<open>x\<close> is NaN or zero, and \<open>x\<close> otherwise. The handlers are those of the form, word for
  word; \<open>addItem\<close>, \<open>removeItem\<close>, \<open>updateItem\<close>, \<open>NewInvoice\<close> and \<open>InvoiceEditor\<close> are the
  functions above, at the type of doubles.
\<close>

type_synonym parser_double = "string \<Rightarrow> double"

definition or_zero_double :: "double \<Rightarrow> double" where
  "or_zero_double x = (if x = NaN \<or> x = Finite 0 then 0 else x)"

fun handle_double :: "parser_double \<Rightarrow> event \<Rightarrow> double form_state \<Rightarrow> double form_state" where
  "handle_double pf (AddItem now) s = addItem now s"
| "handle_double pf (RemoveItem i) s = removeItem i s"
| "handle_double pf (DescriptionChange i v) s = updateItem i (description_value v) s"
| "handle_double pf (QuantityChange i v) s =
     updateItem i (quantity_value (or_zero_double (pf v))) s"
| "handle_double pf (RateChange i v) s = updateItem i (rate_value (or_zero_double (pf v))) s"
| "handle_double pf (TaxRateChange v) s =
     s\<lparr>invoiceData := (invoiceData s)\<lparr>taxRate := or_zero_double (pf v)\<rparr>\<rparr>"

definition run_double ::
  "parser_double \<Rightarrow> event list \<Rightarrow> double form_state \<Rightarrow> double form_state" where
  "run_double pf es s = foldl (\<lambda>s e. handle_double pf e s) s es"

text \<open>
  \<open>calculateTotals\<close> is a closure of the component: it takes no argument and reads the
  state variables \<^verbatim>\<open>items\<close> and \<^verbatim>\<open>invoiceData\<close>. It is translated as a program on the state
  of the component, which returns a value and a state; \<open>reduce\<close> is \<^verbatim>\<open>Array.prototype.reduce\<close>
  with an initial value, its callback a program as well.
\<close>

fun reduce :: "('b \<Rightarrow> 'a \<Rightarrow> ('s, 'b) state) \<Rightarrow> 'b \<Rightarrow> 'a list \<Rightarrow> ('s, 'b) state" where
  "reduce callback accumulator [] = State_Monad.return accumulator"
| "reduce callback accumulator (x # xs) =
     do { accumulator' \<leftarrow> callback accumulator x; reduce callback accumulator' xs }"

definition read :: "('s \<Rightarrow> 'a) \<Rightarrow> ('s, 'a) state" where
  "read variable = do { s \<leftarrow> State_Monad.get; State_Monad.return (variable s) }"

definition calculateTotals_double :: "(double form_state, double totals) state" where
  "calculateTotals_double =
     do {
       its \<leftarrow> read items;
       subtotal \<leftarrow> reduce (\<lambda>sum item. State_Monad.return (sum + amount item)) 0 its;
       data \<leftarrow> read invoiceData;
       let taxAmount = subtotal * (taxRate data / Finite 100);
       let total = subtotal + taxAmount;
       State_Monad.return \<lparr>subtotal = subtotal, taxAmount = taxAmount, total = total\<rparr>
     }"

text \<open>The value a program returns in a state, and the state it leaves.\<close>

definition returned :: "('s, 'a) state \<Rightarrow> 's \<Rightarrow> 'a" where
  "returned program s = fst (run_state program s)"

definition state_after :: "('s, 'a) state \<Rightarrow> 's \<Rightarrow> 's" where
  "state_after program s = snd (run_state program s)"

text \<open>
  \<^verbatim>\<open>toFixed\<close> on a double: a value that is not finite is printed by the general
  number-to-text conversion (\<^verbatim>\<open>Infinity\<close>, \<^verbatim>\<open>NaN\<close>); a finite one as its exact value is,
  by the definition above.
\<close>

definition toFixed_double :: "(double \<Rightarrow> string) \<Rightarrow> double \<Rightarrow> nat \<Rightarrow> string" where
  "toFixed_double ts x f =
     (case x of Finite r \<Rightarrow> toFixed (\<lambda>q. ts (Finite q)) r f | _ \<Rightarrow> ts x)"

text \<open>
  The Invoice Summary panel of the form: the three labels and the three amounts, each
  \<^verbatim>\<open>$\<close> followed by \<^verbatim>\<open>toFixed(2)\<close> of a value of \<open>calculateTotals\<close>.
\<close>

definition summary ::
  "(double \<Rightarrow> string) \<Rightarrow> double form_state \<Rightarrow> (string \<times> string) list" where
  "summary ts s =
     (let t = returned calculateTotals_double s in
      [(''Subtotal:'', ''$'' @ toFixed_double ts (subtotal t) 2),
       (''Tax ('' @ ts (taxRate (invoiceData s)) @ ''%):'',
        ''$'' @ toFixed_double ts (taxAmount t) 2),
       (''Total:'', ''$'' @ toFixed_double ts (total t) 2)])"

text \<open>
  The states of the two forms. NewInvoice starts with one item; every event leads from a
  state to the next. The InvoiceEditor starts from the stored rows of an invoice, which
  \<^verbatim>\<open>handleSave\<close> (NewInvoice) and \<^verbatim>\<open>handleSaveInvoice\<close> (the page of the InvoiceEditor) have
  written from the items of a form: each row has the quantity, rate and amount of one
  of these items; the table gives it an id of its own and returns the rows in the order
  of their time stamps.
\<close>

definition numbers :: "'n InvoiceItem \<Rightarrow> 'n \<times> 'n \<times> 'n" where
  "numbers item = (quantity item, rate item, amount item)"

inductive reachable :: "parser_double \<Rightarrow> double form_state \<Rightarrow> bool" for pf where
  new: "reachable pf (NewInvoice today)"
| event: "reachable pf s \<Longrightarrow> reachable pf (handle_double pf e s)"
| edit: "reachable pf s \<Longrightarrow> set (map numbers rows) \<subseteq> set (map numbers (items s)) \<Longrightarrow>
         reachable pf (InvoiceEditor invoice rows)"

text \<open>
  The exact sum the specification speaks of: the value of a finite double, and the sum of
  the exact products of quantity and rate.
\<close>

fun value_of :: "double \<Rightarrow> rat" where
  "value_of (Finite r) = r"
| "value_of x = 0"

definition exact_sum :: "double InvoiceItem list \<Rightarrow> rat" where
  "exact_sum xs = (\<Sum>item \<leftarrow> xs. value_of (quantity item) * value_of (rate item))"

subsection \<open>Data of the examples on doubles\<close>

text \<open>
  \<^verbatim>\<open>parseFloat\<close> on the texts typed in the examples: the double nearest to the decimal
  number the text denotes, NaN for any other text.
\<close>

definition decimal_value :: "string \<Rightarrow> rat option" where
  "decimal_value v =
     (if v = ''1'' then Some 1 else if v = ''2'' then Some 2 else if v = ''3'' then Some 3
      else if v = ''10'' then Some 10 else if v = ''11'' then Some 11
      else if v = ''50'' then Some 50 else if v = ''100'' then Some 100
      else if v = ''179'' then Some 179 else if v = ''0.1'' then Some (1 / 10)
      else if v = ''4.5'' then Some (9 / 2) else if v = ''1e21'' then Some (10 ^ 21)
      else if v = ''1e308'' then Some (10 ^ 308) else None)"

definition example_parseFloat :: parser_double where
  "example_parseFloat v = (case decimal_value v of None \<Rightarrow> NaN | Some q \<Rightarrow> round_double q)"

text \<open>
  The number-to-text conversion of the language on the doubles of the examples.
\<close>

definition example_ToString_double :: "double \<Rightarrow> string" where
  "example_ToString_double x =
     (case x of Finite r \<Rightarrow> example_ToString r | PlusInfinity \<Rightarrow> ''Infinity''
      | MinusInfinity \<Rightarrow> ''-Infinity'' | NaN \<Rightarrow> ''NaN'')"

text \<open>
  Sessions of a fresh NewInvoice form. The quantity 0.1 at the rate 3. The quantity 179
  at the rate 1, taxed at 10 percent. The quantity 4.5 at the rate 1, taxed at 11 percent.
  The quantity \<^verbatim>\<open>1e308\<close> at the rate 10, and the quantity \<^verbatim>\<open>1e21\<close> at the rate 1, both
  with the tax rate 0 the form starts with.
\<close>

definition tenth_session :: "event list" where
  "tenth_session = [QuantityChange ''1'' ''0.1'', RateChange ''1'' ''3'']"

definition tax_session :: "event list" where
  "tax_session = [QuantityChange ''1'' ''179'', RateChange ''1'' ''1'', TaxRateChange ''10'']"

definition cents_session :: "event list" where
  "cents_session = [QuantityChange ''1'' ''4.5'', RateChange ''1'' ''1'', TaxRateChange ''11'']"

definition overflow_session :: "event list" where
  "overflow_session = [QuantityChange ''1'' ''1e308'', RateChange ''1'' ''10'']"

definition large_session :: "event list" where
  "large_session = [QuantityChange ''1'' ''1e21'', RateChange ''1'' ''1'']"

text \<open>
  The totals as a function of the two inputs the specification names, an item list and a
  tax rate.
\<close>

definition totals_of :: "double InvoiceItem list \<Rightarrow> double \<Rightarrow> double totals" where
  "totals_of its r =
     (let subtotal = foldl (\<lambda>sum item. sum + amount item) 0 its;
          taxAmount = subtotal * (r / Finite 100);
          total = subtotal + taxAmount
      in \<lparr>subtotal = subtotal, taxAmount = taxAmount, total = total\<rparr>)"


section \<open>The totals of an empty list\<close>

lemma decimal_example: "decimal 1700000000000 = ''1700000000000''"
  by (simp add: decimal.simps digit_def)

lemma example_items:
  "items (run example_parser example_session (NewInvoice today)) =
     [\<lparr>item_id = ''1'', description = '''', quantity = 2, rate = 50, amount = 100\<rparr>,
      \<lparr>item_id = ''1700000000000'', description = '''', quantity = 1, rate = 100,
        amount = 100\<rparr>]"
  by (simp add: run_def example_session_def example_parser_def NewInvoice_def
      updateItem_def updated_item_def addItem_def decimal_example Let_def)

lemma example_taxRate:
  "taxRate (invoiceData (run example_parser example_session (NewInvoice today))) = 10"
  by (simp add: run_def example_session_def example_parser_def NewInvoice_def
      updateItem_def addItem_def Let_def)

lemma derived_updated_item:
  "derived item \<Longrightarrow> \<not> (\<exists>v. fv = amount_value v) \<Longrightarrow> derived (updated_item i fv item)"
  by (cases fv) (simp_all add: derived_def updated_item_def Let_def)



section \<open>The amount of an item\<close>

lemma updated_item_numbers:
  assumes "\<not> (\<exists>v. fv = amount_value v)"
  shows "derived (updated_item i fv item) \<or>
         (quantity (updated_item i fv item) = quantity item \<and>
          rate (updated_item i fv item) = rate item \<and>
          amount (updated_item i fv item) = amount item)"
  using assms by (cases fv) (simp_all add: derived_def updated_item_def Let_def)

lemma updateItem_quantity:
  "items (updateItem i (quantity_value v) s) =
     map (\<lambda>item. if item_id item = i then item\<lparr>quantity := v, amount := v * rate item\<rparr>
                  else item) (items s)"
  by (simp add: updateItem_def updated_item_def Let_def cong: if_cong)

lemma updateItem_rate:
  "items (updateItem i (rate_value v) s) =
     map (\<lambda>item. if item_id item = i then item\<lparr>rate := v, amount := quantity item * v\<rparr>
                  else item) (items s)"
  by (simp add: updateItem_def updated_item_def Let_def cong: if_cong)

lemma handle_amounts:
  "\<forall>item' \<in> set (items (handle pf e s)).
      derived item' \<or>
      (\<exists>item \<in> set (items s). quantity item' = quantity item \<and> rate item' = rate item \<and>
         amount item' = amount item)"
proof (cases e)
  case (AddItem now)
  then show ?thesis by (auto simp: addItem_def Let_def derived_def)
next
  case (RemoveItem i)
  then show ?thesis by (auto simp: removeItem_def)
next
  case (DescriptionChange i v)
  then show ?thesis
    using updated_item_numbers [of "description_value v" i]
    by (fastforce simp: updateItem_def)
next
  case (QuantityChange i v)
  then show ?thesis
    using updated_item_numbers [of "quantity_value (or_zero (pf v))" i]
    by (fastforce simp: updateItem_def)
next
  case (RateChange i v)
  then show ?thesis
    using updated_item_numbers [of "rate_value (or_zero (pf v))" i]
    by (fastforce simp: updateItem_def)
next
  case (TaxRateChange v)
  then show ?thesis by auto
qed

text \<open>
  C3. The amount of an item is derived from its quantity and rate. A call of \<open>updateItem\<close>
  that sets the quantity (the rate) of the items with the given id gives each of them the
  new quantity (rate) and the amount \<open>quantity * rate\<close> of its new values, and leaves the
  other items as they are. No event of the form sets an amount to anything else: after
  any event every item of the list has a derived amount, or has the quantity, rate and
  amount of an item that was in the list before. (The signature of \<open>updateItem\<close> admits the
  key \<^verbatim>\<open>'amount'\<close>; the function is local to the component, and its three call sites pass
  \<^verbatim>\<open>'description'\<close>, \<^verbatim>\<open>'quantity'\<close> and \<^verbatim>\<open>'rate'\<close>; the Amount input is read-only.)
\<close>

theorem amount_derived_by_form:
  "items (updateItem i (quantity_value v) s) =
     map (\<lambda>item. if item_id item = i then item\<lparr>quantity := v, amount := v * rate item\<rparr>
                  else item) (items s) \<and>
   items (updateItem i (rate_value v) s) =
     map (\<lambda>item. if item_id item = i then item\<lparr>rate := v, amount := quantity item * v\<rparr>
                  else item) (items s) \<and>
   (\<forall>item' \<in> set (items (handle pf e s)).
      derived item' \<or>
      (\<exists>item \<in> set (items s). quantity item' = quantity item \<and> rate item' = rate item \<and>
         amount item' = amount item))"
  using updateItem_quantity updateItem_rate handle_amounts by blast

theorem amount_derived_by_form_witness:
  "items (updateItem ''1'' (quantity_value 3)
      (run example_parser example_session (NewInvoice ''2026-01-15''))) =
     [\<lparr>item_id = ''1'', description = '''', quantity = 3, rate = 50, amount = 150\<rparr>,
      \<lparr>item_id = ''1700000000000'', description = '''', quantity = 1, rate = 100,
        amount = 100\<rparr>] \<and>
   list_all derived (items (handle example_parser (RateChange ''1'' ''10'')
      (run example_parser example_session (NewInvoice ''2026-01-15''))))"
proof -
  let ?s = "run example_parser example_session (NewInvoice ''2026-01-15'')"
  note t = amount_derived_by_form
             [where i = "''1''" and v = 3 and s = ?s and pf = example_parser
                and e = "RateChange ''1'' ''10''"]
  from t have "items (updateItem ''1'' (quantity_value 3) ?s) =
     map (\<lambda>item. if item_id item = ''1'' then item\<lparr>quantity := 3, amount := 3 * rate item\<rparr>
                  else item) (items ?s)"
    by (rule conjunct1)
  then have "items (updateItem ''1'' (quantity_value 3) ?s) =
     [\<lparr>item_id = ''1'', description = '''', quantity = 3, rate = 50, amount = 150\<rparr>,
      \<lparr>item_id = ''1700000000000'', description = '''', quantity = 1, rate = 100,
        amount = 100\<rparr>]"
    by (simp only: example_items) simp
  moreover from t have "\<forall>item' \<in> set (items (handle example_parser (RateChange ''1'' ''10'') ?s)).
      derived item' \<or>
      (\<exists>item \<in> set (items ?s). quantity item' = quantity item \<and> rate item' = rate item \<and>
         amount item' = amount item)"
    by (rule conjunct2 [THEN conjunct2])
  then have "list_all derived (items (handle example_parser (RateChange ''1'' ''10'') ?s))"
    by (auto simp: example_items list_all_iff derived_def)
  ultimately show ?thesis by (simp only: simp_thms)
qed

text \<open>
  C10. The list of items is meant never to be empty: NewInvoice starts with one item,
  \<open>removeItem\<close> does nothing on a list of one, and the remove buttons are shown only when
  there are at least two items. The guard counts items, while the filter removes every item
  with the given id, and \<open>addItem\<close> takes the id from the millisecond clock: after two Add
  Item events at one clock reading, removing the first item and then one of the two added
  items leaves the list empty.
\<close>

theorem remove_colliding_ids_empties_list:
  "items (run (\<lambda>v. None) colliding_session (NewInvoice ''2026-01-15'')) = []"
  by (simp add: run_def colliding_session_def NewInvoice_def addItem_def removeItem_def
      decimal_example Let_def)

text \<open>
  C7. A text typed into a quantity, rate or tax-rate input that \<^verbatim>\<open>parseFloat\<close> cannot
  read (it returns NaN) is stored as zero: the quantity (rate) of the items with that id
  becomes 0 and their amount with it, the tax rate becomes 0. The handlers are total
  functions of the state: there is no error for them to raise.
\<close>

theorem non_numeric_input_is_zero:
  assumes "pf v = None"
  shows "items (handle pf (QuantityChange i v) s) =
           map (\<lambda>item. if item_id item = i then item\<lparr>quantity := 0, amount := 0\<rparr>
                        else item) (items s) \<and>
         items (handle pf (RateChange i v) s) =
           map (\<lambda>item. if item_id item = i then item\<lparr>rate := 0, amount := 0\<rparr>
                        else item) (items s) \<and>
         taxRate (invoiceData (handle pf (TaxRateChange v) s)) = 0"
  using assms by (simp add: updateItem_def updated_item_def Let_def cong: if_cong)

theorem non_numeric_input_is_zero_witness:
  "example_parser ''abc'' = None \<and>
   items (handle example_parser (QuantityChange ''1'' ''abc'')
      (run example_parser example_session (NewInvoice ''2026-01-15''))) =
     [\<lparr>item_id = ''1'', description = '''', quantity = 0, rate = 50, amount = 0\<rparr>,
      \<lparr>item_id = ''1700000000000'', description = '''', quantity = 1, rate = 100,
        amount = 100\<rparr>] \<and>
   taxRate (invoiceData (handle example_parser (TaxRateChange ''abc'')
      (run example_parser example_session (NewInvoice ''2026-01-15'')))) = 0"
proof -
  let ?s = "run example_parser example_session (NewInvoice ''2026-01-15'')"
  have p: "example_parser ''abc'' = None"
    by (simp add: example_parser_def)
  note t = non_numeric_input_is_zero
      [where pf = example_parser and v = "''abc''" and i = "''1''" and s = ?s, OF p]
  from t have "items (handle example_parser (QuantityChange ''1'' ''abc'') ?s) =
     map (\<lambda>item. if item_id item = ''1'' then item\<lparr>quantity := 0, amount := 0\<rparr> else item)
       (items ?s)"
    by (rule conjunct1)
  then have "items (handle example_parser (QuantityChange ''1'' ''abc'') ?s) =
     [\<lparr>item_id = ''1'', description = '''', quantity = 0, rate = 50, amount = 0\<rparr>,
      \<lparr>item_id = ''1700000000000'', description = '''', quantity = 1, rate = 100,
        amount = 100\<rparr>]"
    by (simp only: example_items) simp
  moreover from t have "taxRate (invoiceData (handle example_parser (TaxRateChange ''abc'') ?s)) = 0"
    by (rule conjunct2 [THEN conjunct2])
  ultimately show ?thesis using p by (simp only: simp_thms)
qed

text \<open>
  What the guard of \<open>removeItem\<close> does achieve: as long as the ids in the list are distinct
  and every Add Item reads a fresh clock value, the list keeps at least one item.
\<close>

lemma filter_distinct_length:
  "distinct (map f xs) \<Longrightarrow> length xs \<le> Suc (length (filter (\<lambda>x. f x \<noteq> i) xs))"
proof (induction xs)
  case Nil
  then show ?case by simp
next
  case (Cons x xs)
  show ?case
  proof (cases "f x = i")
    case True
    with Cons.prems have "\<forall>y \<in> set xs. f y \<noteq> i" by (force simp: image_iff)
    then have "filter (\<lambda>x. f x \<noteq> i) xs = xs" by (simp add: filter_id_conv)
    with True show ?thesis by simp
  next
    case False
    with Cons show ?thesis by simp
  qed
qed

lemma updated_item_id:
  "\<not> (\<exists>v. fv = id_value v) \<Longrightarrow> item_id (updated_item i fv item) = item_id item"
  by (cases fv) (simp_all add: updated_item_def Let_def)

lemma updateItem_ids:
  "\<not> (\<exists>v. fv = id_value v) \<Longrightarrow>
   map item_id (items (updateItem i fv s)) = map item_id (items s)"
  by (simp add: updateItem_def updated_item_id)

lemma removeItem_keeps_one:
  assumes "distinct (map item_id (items s))" "items s \<noteq> []"
  shows "distinct (map item_id (items (removeItem i s))) \<and> items (removeItem i s) \<noteq> []"
proof (cases "length (items s) > 1")
  case True
  have "length (items s) \<le> Suc (length (filter (\<lambda>x. item_id x \<noteq> i) (items s)))"
    using assms(1) by (rule filter_distinct_length)
  with True have "0 < length (filter (\<lambda>x. item_id x \<noteq> i) (items s))"
    by arith
  then have "filter (\<lambda>x. item_id x \<noteq> i) (items s) \<noteq> []"
    by simp
  with True assms show ?thesis by (simp add: removeItem_def distinct_map_filter)
next
  case False
  with assms show ?thesis by (simp add: removeItem_def)
qed

lemma updateItem_keeps_one:
  assumes "distinct (map item_id (items s))" "items s \<noteq> []" "\<not> (\<exists>v. fv = id_value v)"
  shows "distinct (map item_id (items (updateItem i fv s))) \<and> items (updateItem i fv s) \<noteq> []"
proof -
  have "map item_id (items (updateItem i fv s)) = map item_id (items s)"
    using assms(3) by (rule updateItem_ids)
  moreover have "items (updateItem i fv s) \<noteq> []"
    using assms(2) by (simp add: updateItem_def)
  ultimately show ?thesis using assms(1) by simp
qed

lemma handle_keeps_one:
  assumes "distinct (map item_id (items s))" "items s \<noteq> []"
    and "case e of AddItem now \<Rightarrow> decimal now \<notin> set (map item_id (items s)) | _ \<Rightarrow> True"
  shows "distinct (map item_id (items (handle pf e s))) \<and> items (handle pf e s) \<noteq> []"
proof (cases e)
  case (AddItem now)
  with assms show ?thesis by (simp add: addItem_def Let_def)
next
  case (RemoveItem i)
  with assms removeItem_keeps_one [of s i] show ?thesis by simp
next
  case (DescriptionChange i v)
  with assms updateItem_keeps_one [of s "description_value v" i] show ?thesis by simp
next
  case (QuantityChange i v)
  with assms updateItem_keeps_one [of s "quantity_value (or_zero (pf v))" i] show ?thesis
    by simp
next
  case (RateChange i v)
  with assms updateItem_keeps_one [of s "rate_value (or_zero (pf v))" i] show ?thesis
    by simp
next
  case (TaxRateChange v)
  with assms show ?thesis by simp
qed

lemma never_empty_with_fresh_ids:
  "distinct (map item_id (items s)) \<Longrightarrow> items s \<noteq> [] \<Longrightarrow> fresh_ids pf es s \<Longrightarrow>
   distinct (map item_id (items (run pf es s))) \<and> items (run pf es s) \<noteq> []"
proof (induction es arbitrary: s)
  case Nil
  then show ?case by (simp add: run_def)
next
  case (Cons e es)
  from Cons.prems have
    "distinct (map item_id (items (handle pf e s))) \<and> items (handle pf e s) \<noteq> []"
    by (intro handle_keeps_one) simp_all
  moreover from Cons.prems have "fresh_ids pf es (handle pf e s)" by simp
  ultimately show ?case using Cons.IH [of "handle pf e s"] by (simp add: run_def)
qed

section \<open>Two digits after the point\<close>

lemma decimal_small: "n < 10 \<Longrightarrow> decimal n = [digit n]"
  by (simp add: decimal.simps)

lemma decimal_step: "10 \<le> n \<Longrightarrow> decimal n = decimal (n div 10) @ [digit (n mod 10)]"
  by (subst decimal.simps) simp

lemma decimal_not_Nil: "decimal n \<noteq> []"
  by (subst decimal.simps) simp

lemma decimal_two: "100 \<le> n \<Longrightarrow>
  decimal n = decimal (n div 100) @ [digit (n div 10 mod 10), digit (n mod 10)]"
proof -
  assume n: "100 \<le> n"
  then have "10 \<le> n" "10 \<le> n div 10" by simp_all
  then have "decimal n = (decimal (n div 10 div 10) @ [digit (n div 10 mod 10)]) @ [digit (n mod 10)]"
    by (simp add: decimal_step)
  then show ?thesis by (simp add: div_mult2_eq [symmetric])
qed

lemma digit_0: "digit 0 = CHR ''0''"
  by (simp add: digit_def)

lemma point_before_last_two:
  "(let m = decimal n; k = length m;
        m' = (if k \<le> 2 then replicate (2 + 1 - k) (CHR ''0'') @ m else m);
        k' = (if k \<le> 2 then 2 + 1 else k)
    in take (k' - 2) m' @ ''.'' @ drop (k' - 2) m') =
   decimal (n div 100) @ ''.'' @ [digit (n div 10 mod 10), digit (n mod 10)]"
proof -
  consider "n < 10" | "10 \<le> n" "n < 100" | "100 \<le> n" by linarith
  then show ?thesis
  proof cases
    case 1
    then show ?thesis
      by (simp add: decimal_small digit_0 numeral_2_eq_2 numeral_3_eq_3)
  next
    case 2
    then have "decimal n = [digit (n div 10), digit (n mod 10)]"
      by (simp add: decimal_step decimal_small)
    with 2 show ?thesis
      by (simp add: decimal_small digit_0 Let_def)
  next
    case 3
    then have d: "decimal n = decimal (n div 100) @ [digit (n div 10 mod 10), digit (n mod 10)]"
      by (rule decimal_two)
    have "length (decimal (n div 100)) \<noteq> 0" by (simp add: decimal_not_Nil)
    then show ?thesis
      by (simp add: d Let_def)
  qed
qed

lemma toFixed_two_decimals:
  assumes "0 \<le> x" "x < 10 ^ 21"
  shows "toFixed ts x 2 = two_decimals x"
proof -
  have "toFixed ts x 2 =
     (let m = decimal (cents x); k = length m;
        m' = (if k \<le> 2 then replicate (2 + 1 - k) (CHR ''0'') @ m else m);
        k' = (if k \<le> 2 then 2 + 1 else k)
      in take (k' - 2) m' @ ''.'' @ drop (k' - 2) m')"
    using assms by (simp add: toFixed_def cents_def Let_def not_le)
  then show ?thesis
    by (simp only: point_before_last_two two_decimals_def)
qed

lemma cents_close:
  assumes "0 \<le> x"
  shows "\<bar>of_nat (cents x) / 100 - x\<bar> \<le> 1 / 200"
proof -
  define f where "f = \<lfloor>x * 100 + 1 / 2\<rfloor>"
  have "0 \<le> f" using assms by (simp add: f_def)
  then have n: "of_nat (cents x) = (of_int f :: rat)"
    by (simp add: cents_def f_def)
  have "of_int f \<le> x * 100 + 1 / 2" "x * 100 + 1 / 2 < of_int f + 1"
    unfolding f_def by linarith+
  then show ?thesis unfolding n by linarith
qed

lemma cents_eq:
  "of_nat n \<le> x * 100 + 1 / 2 \<Longrightarrow> x * 100 + 1 / 2 < of_nat n + 1 \<Longrightarrow> cents x = n"
proof -
  assume "of_nat n \<le> x * 100 + 1 / 2" "x * 100 + 1 / 2 < of_nat n + 1"
  then have "\<lfloor>x * 100 + 1 / 2\<rfloor> = int n"
    by (intro floor_unique) simp_all
  then show ?thesis by (simp add: cents_def)
qed

lemma two_decimals_200: "two_decimals 200 = ''200.00''"
proof -
  have "cents 200 = 20000" by (rule cents_eq) simp_all
  then show ?thesis by (simp add: two_decimals_def decimal.simps digit_def)
qed

lemma two_decimals_20: "two_decimals 20 = ''20.00''"
proof -
  have "cents 20 = 2000" by (rule cents_eq) simp_all
  then show ?thesis by (simp add: two_decimals_def decimal.simps digit_def)
qed

lemma two_decimals_220: "two_decimals 220 = ''220.00''"
proof -
  have "cents 220 = 22000" by (rule cents_eq) simp_all
  then show ?thesis by (simp add: two_decimals_def decimal.simps digit_def)
qed

lemma example_ToString_10: "example_ToString 10 = ''10''"
  by (simp add: example_ToString_def decimal.simps digit_def)

section \<open>Rounding to a double\<close>

lemma binade_bounds:
  assumes "0 < a"
  shows "2 powi (binade a) \<le> a \<and> a < 2 powi (binade a + 1)"
proof (cases "1 \<le> a")
  case True
  define m where "m = \<lfloor>a\<rfloor>"
  have m: "0 < m" using True by (simp add: m_def)
  have b: "1 \<le> bitlen m" using m bitlen_eq_zero_iff [of m] bitlen_nonneg [of m] by linarith
  from bitlen_bounds [OF m] have "2 ^ nat (bitlen m - 1) \<le> m" "m < 2 ^ nat (bitlen m)"
    by simp_all
  then have "m + 1 \<le> 2 ^ nat (bitlen m)" by simp
  have l: "(2::rat) powi (bitlen m - 1) \<le> of_int m"
    using \<open>2 ^ nat (bitlen m - 1) \<le> m\<close> b
    by (metis (no_types) diff_ge_0_iff_ge of_int_le_iff of_int_numeral of_int_power power_int_def)
  have "of_int m \<le> a" by (simp add: m_def)
  have "a < of_int (m + 1)" unfolding m_def by linarith
  also have "\<dots> \<le> of_int (2 ^ nat (bitlen m))"
    using \<open>m + 1 \<le> 2 ^ nat (bitlen m)\<close> by (simp only: of_int_le_iff)
  also have "\<dots> = 2 powi (bitlen m)"
    using b by (simp add: power_int_def)
  finally have u: "a < 2 powi (bitlen m)" .
  from True have "binade a = bitlen m - 1" by (simp add: binade_def m_def)
  with l u \<open>of_int m \<le> a\<close> show ?thesis by simp
next
  case False
  with assms have a: "0 < a" "a < 1" by simp_all
  define k where "k = \<lceil>1 / a\<rceil> - 1"
  have "1 < 1 / a" using a by simp
  then have "1 < \<lceil>1 / a\<rceil>" by (simp add: less_ceiling_iff)
  then have k: "0 < k" by (simp add: k_def)
  have b: "1 \<le> bitlen k" using k bitlen_eq_zero_iff [of k] bitlen_nonneg [of k] by linarith
  from bitlen_bounds [OF k] have lo: "2 ^ nat (bitlen k - 1) \<le> k" and hi: "k + 1 \<le> 2 ^ nat (bitlen k)"
    by simp_all
  have "1 / a \<le> of_int (k + 1)" unfolding k_def by (simp add: le_of_int_ceiling)
  also have "\<dots> \<le> of_int (2 ^ nat (bitlen k))"
    using hi by (simp only: of_int_le_iff)
  also have "\<dots> = 2 ^ nat (bitlen k)" by simp
  finally have "1 / a \<le> 2 ^ nat (bitlen k)" .
  then have "1 \<le> 2 ^ nat (bitlen k) * a"
    using a by (simp add: pos_divide_le_eq)
  then have "1 / 2 ^ nat (bitlen k) \<le> a"
    by (simp add: pos_divide_le_eq mult.commute)
  moreover have "(2::rat) powi (- bitlen k) = 1 / 2 ^ nat (bitlen k)"
    using b by (simp add: power_int_def field_simps)
  ultimately have l: "2 powi (- bitlen k) \<le> a" by simp
  have "of_int k < 1 / a" unfolding k_def by (simp add: ceiling_correct [THEN conjunct1])
  moreover have "(of_int (2 ^ nat (bitlen k - 1)) :: rat) \<le> of_int k"
    using lo by (simp only: of_int_le_iff)
  moreover have "(of_int (2 ^ nat (bitlen k - 1)) :: rat) = 2 ^ nat (bitlen k - 1)"
    by simp
  ultimately have "2 ^ nat (bitlen k - 1) < 1 / a" by linarith
  then have "2 ^ nat (bitlen k - 1) * a < 1"
    using a by (simp add: pos_less_divide_eq)
  then have "a < 1 / 2 ^ nat (bitlen k - 1)"
    by (simp add: pos_less_divide_eq mult.commute)
  moreover have "(2::rat) powi (- bitlen k + 1) = 1 / 2 ^ nat (bitlen k - 1)"
  proof -
    have "- bitlen k + 1 = - int (nat (bitlen k - 1))" using b by simp
    then show ?thesis by (simp only: power_int_minus power_int_of_nat inverse_eq_divide)
  qed
  ultimately have u: "a < 2 powi (- bitlen k + 1)" by simp
  from False have "binade a = - bitlen k" by (simp add: binade_def k_def)
  with l u show ?thesis by simp
qed

lemma binade_eq:
  assumes "2 powi e \<le> a" "a < 2 powi (e + 1)"
  shows "binade a = e"
proof -
  have "(0::rat) < 2 powi e" by simp
  with assms have "0 < a" by linarith
  from binade_bounds [OF this] have "2 powi (binade a) \<le> a" "a < 2 powi (binade a + 1)"
    by simp_all
  with assms have p: "(2::rat) powi (binade a) < 2 powi (e + 1)" "(2::rat) powi e < 2 powi (binade a + 1)"
    by linarith+
  have "binade a < e + 1"
  proof (rule ccontr)
    assume "\<not> binade a < e + 1"
    then have "(2::rat) powi (e + 1) \<le> 2 powi (binade a)"
      by (intro power_int_increasing) simp_all
    with p show False by linarith
  qed
  moreover have "e < binade a + 1"
  proof (rule ccontr)
    assume "\<not> e < binade a + 1"
    then have "(2::rat) powi (binade a + 1) \<le> 2 powi e"
      by (intro power_int_increasing) simp_all
    with p show False by linarith
  qed
  ultimately show ?thesis by simp
qed

lemma round_half_even_eq:
  assumes "\<bar>y - of_int n\<bar> < 1 / 2"
  shows "round_half_even y = n"
proof (cases "of_int n \<le> y")
  case True
  with assms have "\<lfloor>y\<rfloor> = n" by (intro floor_unique) linarith+
  with assms True show ?thesis by (simp add: round_half_even_def Let_def)
next
  case False
  from assms False have "of_int n - 1 \<le> y" "y < of_int n" by linarith+
  then have "\<lfloor>y\<rfloor> = n - 1" by (intro floor_unique) simp_all
  with assms False show ?thesis by (simp add: round_half_even_def Let_def)
qed

lemma round_half_even_nonneg: "0 \<le> y \<Longrightarrow> 0 \<le> round_half_even y"
  by (simp add: round_half_even_def Let_def)

lemma round_half_even_le: "of_int (round_half_even y) \<le> y + 1 / 2"
proof -
  have "of_int \<lfloor>y\<rfloor> \<le> y" by simp
  then show ?thesis
    by (simp add: round_half_even_def Let_def) linarith
qed

lemma round_half_even_tie:
  assumes "y = of_int n + 1 / 2"
  shows "round_half_even y = (if even n then n else n + 1)"
proof -
  from assms have "\<lfloor>y\<rfloor> = n" by (intro floor_unique) simp_all
  with assms show ?thesis by (simp add: round_half_even_def Let_def)
qed

lemma round_double_positive:
  assumes "2 powi e \<le> a" "a < 2 powi (e + 1)" "- 1022 \<le> e"
    and "round_half_even (a / 2 powi (e - 52)) = n"
  shows "round_double a =
           (if (2::rat) ^ 1024 \<le> of_int n * 2 powi (e - 52) then PlusInfinity
            else Finite (of_int n * 2 powi (e - 52)))"
proof -
  have "(0::rat) < 2 powi e" by simp
  with assms(1) have a: "0 < a" by linarith
  have b: "binade a = e" using assms(1,2) by (rule binade_eq)
  from assms(3) have m: "max e (- 1022) = e" by simp
  from a have "\<bar>a\<bar> = a" "a \<noteq> 0" "\<not> a < 0" by simp_all
  then show ?thesis
    by (simp only: round_double_def Let_def b m assms(4) if_False)
qed

lemma round_double_nearest:
  assumes "2 powi e \<le> a" "a < 2 powi (e + 1)" "- 1022 \<le> e"
    and "\<bar>a / 2 powi (e - 52) - of_int n\<bar> < 1 / 2"
  shows "round_double a =
           (if (2::rat) ^ 1024 \<le> of_int n * 2 powi (e - 52) then PlusInfinity
            else Finite (of_int n * 2 powi (e - 52)))"
  using assms(1-3) round_half_even_eq [OF assms(4)] by (rule round_double_positive)

lemma round_double_tie:
  assumes "2 powi e \<le> a" "a < 2 powi (e + 1)" "- 1022 \<le> e"
    and "a / 2 powi (e - 52) = of_int n - 1 / 2" "even n"
  shows "round_double a =
           (if (2::rat) ^ 1024 \<le> of_int n * 2 powi (e - 52) then PlusInfinity
            else Finite (of_int n * 2 powi (e - 52)))"
proof -
  from assms(4) have "a / 2 powi (e - 52) = of_int (n - 1) + 1 / 2" by simp
  then have "round_half_even (a / 2 powi (e - 52)) = (if even (n - 1) then n - 1 else n - 1 + 1)"
    by (rule round_half_even_tie)
  with assms(5) have "round_half_even (a / 2 powi (e - 52)) = n" by simp
  with assms(1-3) show ?thesis by (rule round_double_positive)
qed

section \<open>The totals in the arithmetic of the code\<close>

lemma round_double_0: "round_double 0 = Finite 0"
  by (simp add: round_double_def)

lemma round_double_int:
  assumes "0 \<le> k" "k < 2 ^ 53"
  shows "round_double (of_int k) = Finite (of_int k)"
proof (cases "k = 0")
  case True
  then show ?thesis by (simp add: round_double_0)
next
  case False
  with assms have k: "0 < k" by simp
  define a :: rat where "a = of_int k"
  define e where "e = binade a"
  have a: "1 \<le> a" "a < 2 ^ 53"
    using k assms(2) unfolding a_def
    by (simp, metis of_int_less_iff of_int_numeral of_int_power)
  then have "0 < a" by simp
  from binade_bounds [OF this] have b: "2 powi e \<le> a" "a < 2 powi (e + 1)"
    by (simp_all add: e_def)
  have e0: "0 \<le> e"
  proof (rule ccontr)
    assume "\<not> 0 \<le> e"
    then have "(2::rat) powi (e + 1) \<le> 2 powi 0" by (intro power_int_increasing) simp_all
    with b a show False by simp
  qed
  have e52: "e \<le> 52"
  proof (rule ccontr)
    assume "\<not> e \<le> 52"
    then have "(2::rat) powi 53 \<le> 2 powi e" by (intro power_int_increasing) simp_all
    with b a show False by simp
  qed
  define m where "m = nat (52 - e)"
  have u: "(2::rat) powi (e - 52) = 1 / 2 ^ m"
  proof -
    have "e - 52 = - int m" using e52 by (simp add: m_def)
    then show ?thesis by (simp only: power_int_minus power_int_of_nat inverse_eq_divide)
  qed
  have "a / 2 powi (e - 52) = of_int (k * 2 ^ m)"
    by (simp add: u a_def)
  then have r: "round_half_even (a / 2 powi (e - 52)) = k * 2 ^ m"
    by (simp add: round_half_even_eq)
  have y: "of_int (k * 2 ^ m) * (2::rat) powi (e - 52) = a"
    by (simp add: u a_def)
  from e0 have "- 1022 \<le> e" by simp
  with b have "round_double a =
           (if (2::rat) ^ 1024 \<le> of_int (k * 2 ^ m) * 2 powi (e - 52) then PlusInfinity
            else Finite (of_int (k * 2 ^ m) * 2 powi (e - 52)))"
    using r by (rule round_double_positive)
  moreover have "a < 2 ^ 1024"
  proof -
    have "(2::rat) ^ 53 \<le> 2 ^ 1024" by (intro power_increasing) simp_all
    with a show ?thesis by linarith
  qed
  ultimately show ?thesis
    by (simp only: y) (simp add: a_def)
qed

lemma round_double_nonnegative: "0 \<le> x \<Longrightarrow> nonnegative (round_double x)"
proof -
  assume x: "0 \<le> x"
  have "0 \<le> of_int (round_half_even (\<bar>x\<bar> / u)) * u" if "0 < u" for u :: rat
  proof -
    from that have "0 \<le> \<bar>x\<bar> / u" by simp
    then have "0 \<le> round_half_even (\<bar>x\<bar> / u)" by (rule round_half_even_nonneg)
    with that show ?thesis by simp
  qed
  then have "0 \<le> of_int (round_half_even (\<bar>x\<bar> / 2 powi n)) * (2::rat) powi n" for n
    by simp
  with x show ?thesis
    by (simp add: round_double_def Let_def)
qed

lemma round_double_fraction:
  assumes "0 \<le> x" "x \<le> 1"
  shows "finite_nonnegative (round_double x)"
proof (cases "x = 0")
  case True
  then show ?thesis by (simp add: round_double_0)
next
  case False
  with assms have x: "0 < x" by simp
  define e where "e = max (binade x) (- 1022)"
  define u :: rat where "u = 2 powi (e - 52)"
  define y where "y = of_int (round_half_even (x / u)) * u"
  have "binade x \<le> 0"
  proof (rule ccontr)
    assume "\<not> binade x \<le> 0"
    then have "(2::rat) powi 1 \<le> 2 powi (binade x)" by (intro power_int_increasing) simp_all
    with binade_bounds [OF x] assms show False by simp
  qed
  then have "e - 52 \<le> 0" by (simp add: e_def)
  then have "u \<le> 2 powi 0" unfolding u_def by (intro power_int_increasing) simp_all
  then have u1: "u \<le> 1" by simp
  have u0: "0 < u" by (simp add: u_def)
  have "of_int (round_half_even (x / u)) \<le> x / u + 1 / 2" by (rule round_half_even_le)
  then have "y \<le> (x / u + 1 / 2) * u"
    unfolding y_def using u0 by (simp only: mult_le_cancel_right_pos)
  also have "\<dots> = x + u / 2" using u0 by (simp add: field_simps)
  also have "\<dots> \<le> 2" using assms u1 by simp
  finally have "y \<le> 2" .
  moreover have "(2::rat) ^ 1 \<le> 2 ^ 1024" by (intro power_increasing) simp_all
  ultimately have small: "\<not> 2 ^ 1024 \<le> y" by simp
  have "0 \<le> x / u" using x u0 by simp
  then have "0 \<le> round_half_even (x / u)" by (rule round_half_even_nonneg)
  then have y0: "0 \<le> y" using u0 by (simp add: y_def)
  from x have "\<bar>x\<bar> = x" "x \<noteq> 0" "\<not> x < 0" by simp_all
  then have "round_double x = Finite y"
    using small by (simp add: round_double_def Let_def e_def [symmetric] u_def [symmetric]
        y_def [symmetric])
  with y0 show ?thesis by simp
qed

lemma run_reduce:
  "run_state (reduce (\<lambda>sum item. State_Monad.return (f sum item)) a xs) s = (foldl f a xs, s)"
  by (induction xs arbitrary: a) simp_all

lemma run_calculateTotals:
  "run_state calculateTotals_double s =
     (\<lparr>subtotal = foldl (\<lambda>sum item. sum + amount item) 0 (items s),
       taxAmount = foldl (\<lambda>sum item. sum + amount item) 0 (items s) *
                   (taxRate (invoiceData s) / Finite 100),
       total = foldl (\<lambda>sum item. sum + amount item) 0 (items s) +
               foldl (\<lambda>sum item. sum + amount item) 0 (items s) *
               (taxRate (invoiceData s) / Finite 100)\<rparr>, s)"
  by (simp add: calculateTotals_double_def read_def run_reduce Let_def)

lemma returned_calculateTotals:
  "subtotal (returned calculateTotals_double s) =
     foldl (\<lambda>sum item. sum + amount item) 0 (items s)"
  "taxAmount (returned calculateTotals_double s) =
     subtotal (returned calculateTotals_double s) * (taxRate (invoiceData s) / Finite 100)"
  "total (returned calculateTotals_double s) =
     subtotal (returned calculateTotals_double s) + taxAmount (returned calculateTotals_double s)"
  by (simp_all add: returned_def run_calculateTotals)

lemma derived_numbers: "numbers row = numbers item \<Longrightarrow> derived item \<Longrightarrow> derived row"
  by (simp add: numbers_def derived_def)

lemma derived_new_item:
  "derived \<lparr>item_id = i, description = d, quantity = 1, rate = 0, amount = (0::double)\<rparr>"
  by (simp add: derived_def one_double_def zero_double_def round_double_0)

lemma handle_double_derived:
  assumes "list_all derived (items s)"
  shows "list_all derived (items (handle_double pf e s))"
proof (cases e)
  case (AddItem now)
  with assms show ?thesis by (simp add: addItem_def Let_def derived_new_item)
next
  case (RemoveItem i)
  with assms show ?thesis by (auto simp: removeItem_def list_all_iff)
next
  case (DescriptionChange i v)
  with assms show ?thesis by (auto simp: updateItem_def list_all_iff intro!: derived_updated_item)
next
  case (QuantityChange i v)
  with assms show ?thesis by (auto simp: updateItem_def list_all_iff intro!: derived_updated_item)
next
  case (RateChange i v)
  with assms show ?thesis by (auto simp: updateItem_def list_all_iff intro!: derived_updated_item)
next
  case (TaxRateChange v)
  with assms show ?thesis by simp
qed

lemma reachable_derived: "reachable pf s \<Longrightarrow> list_all derived (items s)"
proof (induction rule: reachable.induct)
  case (new today)
  show ?case by (simp add: NewInvoice_def derived_new_item)
next
  case (event s e)
  then show ?case by (simp add: handle_double_derived)
next
  case (edit s rows invoice)
  have "derived row" if "row \<in> set rows" for row
  proof -
    from that edit.hyps(2) have "numbers row \<in> set (map numbers (items s))" by auto
    then obtain item where "item \<in> set (items s)" "numbers row = numbers item" by auto
    with edit.IH show ?thesis by (auto simp: list_all_iff intro: derived_numbers)
  qed
  then show ?case by (simp add: InvoiceEditor_def list_all_iff)
qed

lemma run_double_reachable: "reachable pf s \<Longrightarrow> reachable pf (run_double pf es s)"
  by (induction es arbitrary: s) (simp_all add: run_double_def reachable.event)

lemma foldl_derived:
  "list_all derived xs \<Longrightarrow>
   foldl (\<lambda>sum item. sum + amount item) a xs =
   foldl (\<lambda>sum item. sum + quantity item * rate item) a xs"
  by (induction xs arbitrary: a) (simp_all add: derived_def)

lemma plus_nonnegative: "nonnegative x \<Longrightarrow> nonnegative y \<Longrightarrow> nonnegative (x + y)"
  by (cases x; cases y) (simp_all add: round_double_nonnegative)

lemma times_finite_nonnegative:
  "finite_nonnegative x \<Longrightarrow> finite_nonnegative y \<Longrightarrow> nonnegative (x * y)"
  by (cases x; cases y) (simp_all add: round_double_nonnegative)

lemma foldl_nonnegative:
  "nonnegative a \<Longrightarrow> list_all (\<lambda>item. nonnegative (amount item)) xs \<Longrightarrow>
   nonnegative (foldl (\<lambda>sum item. sum + amount item) a xs)"
  by (induction xs arbitrary: a) (simp_all add: plus_nonnegative)

lemma round_double_1: "round_double 1 = Finite 1"
  using round_double_int [of 1] by simp

lemma round_double_numeral:
  "numeral k < (2::int) ^ 53 \<Longrightarrow> round_double (numeral k) = Finite (numeral k)"
  using round_double_int [of "numeral k"] by simp

lemma round_double_1_10:
  "round_double (1 / 10) = Finite (3602879701896397 / 36028797018963968)"
  using round_double_nearest [of "- 4" "1 / 10" 7205759403792794] by simp

lemma round_double_3_10:
  "round_double (3 / 10) = Finite (5404319552844595 / 18014398509481984)"
  using round_double_nearest [of "- 2" "3 / 10" 5404319552844595] by simp

lemma round_double_3_tenths:
  "round_double (10808639105689191 / 36028797018963968) =
     Finite (1351079888211149 / 4503599627370496)"
  using round_double_tie [of "- 2" "10808639105689191 / 36028797018963968" 5404319552844596]
  by simp

lemma round_double_3_tenths_again:
  "round_double (1351079888211149 / 4503599627370496) =
     Finite (1351079888211149 / 4503599627370496)"
  using round_double_nearest [of "- 2" "1351079888211149 / 4503599627370496" 5404319552844596]
  by simp

lemmas double_simps =
  zero_double_def one_double_def round_double_0 round_double_1 round_double_numeral
  or_zero_double_def

lemma round_double_179_tenths:
  "round_double (644915466639455063 / 36028797018963968) =
     Finite (5038402083120743 / 281474976710656)"
  using round_double_nearest [of 4 "644915466639455063 / 36028797018963968" 5038402083120743]
  by simp

lemma round_double_179_10:
  "round_double (179 / 10) = Finite (2519201041560371 / 140737488355328)"
  using round_double_nearest [of 4 "179 / 10" 5038402083120742]
  by simp

lemma round_double_200_tenths:
  "round_double (90071992547409925 / 4503599627370496) = Finite 20"
  using round_double_nearest [of 4 "90071992547409925 / 4503599627370496" 5629499534213120]
  by simp

lemma parse_example:
  "example_parseFloat ''1'' = Finite 1" "example_parseFloat ''2'' = Finite 2"
  "example_parseFloat ''3'' = Finite 3"
  "example_parseFloat ''10'' = Finite 10" "example_parseFloat ''11'' = Finite 11"
  "example_parseFloat ''50'' = Finite 50" "example_parseFloat ''100'' = Finite 100"
  "example_parseFloat ''179'' = Finite 179" "example_parseFloat ''abc'' = NaN"
  "example_parseFloat ''0.1'' = Finite (3602879701896397 / 36028797018963968)"
  by (simp_all add: example_parseFloat_def decimal_value_def double_simps round_double_1_10)

lemma tenth_items:
  "items (run_double example_parseFloat tenth_session (NewInvoice today)) =
     [\<lparr>item_id = ''1'', description = '''',
       quantity = Finite (3602879701896397 / 36028797018963968), rate = Finite 3,
       amount = Finite (1351079888211149 / 4503599627370496)\<rparr>]"
  by (simp add: run_double_def tenth_session_def NewInvoice_def updateItem_def
      updated_item_def Let_def parse_example double_simps round_double_3_tenths)

lemma example_items_double:
  "items (run_double example_parseFloat example_session (NewInvoice today)) =
     [\<lparr>item_id = ''1'', description = '''', quantity = Finite 2, rate = Finite 50,
       amount = Finite 100\<rparr>,
      \<lparr>item_id = ''1700000000000'', description = '''', quantity = Finite 1,
       rate = Finite 100, amount = Finite 100\<rparr>]"
  by (simp add: run_double_def example_session_def NewInvoice_def updateItem_def
      updated_item_def addItem_def decimal_example Let_def parse_example double_simps)

lemma example_taxRate_double:
  "taxRate (invoiceData (run_double example_parseFloat example_session (NewInvoice today))) =
     Finite 10"
  by (simp add: run_double_def example_session_def NewInvoice_def updateItem_def
      addItem_def Let_def parse_example double_simps)

lemma tax_items:
  "items (run_double example_parseFloat tax_session (NewInvoice today)) =
     [\<lparr>item_id = ''1'', description = '''', quantity = Finite 179, rate = Finite 1,
       amount = Finite 179\<rparr>]"
  by (simp add: run_double_def tax_session_def NewInvoice_def updateItem_def
      updated_item_def Let_def parse_example double_simps)

lemma tax_taxRate:
  "taxRate (invoiceData (run_double example_parseFloat tax_session (NewInvoice today))) =
     Finite 10"
  by (simp add: run_double_def tax_session_def NewInvoice_def updateItem_def
      parse_example double_simps)

text \<open>
  C1 as stated fails. In a fresh NewInvoice form the quantity 0.1 and the rate 3 are typed
  into the item. The quantity is the double nearest to 0.1, the amount the product of
  quantity and rate rounded to a double, \<^verbatim>\<open>0.30000000000000004\<close>, and the subtotal is this
  amount: it is not the exact product of the quantity and the rate, and not the double
  nearest to 0.3 either.
\<close>

theorem subtotal_is_not_exact_sum:
  "reachable example_parseFloat
     (run_double example_parseFloat tenth_session (NewInvoice ''2026-01-15'')) \<and>
   items (run_double example_parseFloat tenth_session (NewInvoice ''2026-01-15'')) =
     [\<lparr>item_id = ''1'', description = '''',
       quantity = Finite (3602879701896397 / 36028797018963968), rate = Finite 3,
       amount = Finite (1351079888211149 / 4503599627370496)\<rparr>] \<and>
   subtotal (returned calculateTotals_double
     (run_double example_parseFloat tenth_session (NewInvoice ''2026-01-15''))) =
     Finite (1351079888211149 / 4503599627370496) \<and>
   exact_sum (items (run_double example_parseFloat tenth_session (NewInvoice ''2026-01-15''))) =
     10808639105689191 / 36028797018963968 \<and>
   subtotal (returned calculateTotals_double
     (run_double example_parseFloat tenth_session (NewInvoice ''2026-01-15''))) \<noteq>
     Finite (exact_sum
       (items (run_double example_parseFloat tenth_session (NewInvoice ''2026-01-15'')))) \<and>
   subtotal (returned calculateTotals_double
     (run_double example_parseFloat tenth_session (NewInvoice ''2026-01-15''))) \<noteq>
     round_double (3 / 10)"
proof -
  let ?s = "run_double example_parseFloat tenth_session (NewInvoice ''2026-01-15'')"
  have "reachable example_parseFloat ?s"
    by (intro run_double_reachable reachable.new)
  moreover have "subtotal (returned calculateTotals_double ?s) =
      Finite (1351079888211149 / 4503599627370496)"
    by (simp add: returned_calculateTotals tenth_items double_simps
        round_double_3_tenths_again)
  moreover have "exact_sum (items ?s) = 10808639105689191 / 36028797018963968"
    by (simp add: exact_sum_def tenth_items)
  ultimately show ?thesis
    by (simp add: tenth_items round_double_3_10)
qed

text \<open>
  C1, as the code has it. In every state of the two forms (NewInvoice from its start,
  the InvoiceEditor from rows the forms have saved, after any events), the subtotal of
  \<open>calculateTotals\<close> is the sum, taken from the left in double arithmetic, of the products
  \<open>quantity * rate\<close> in double arithmetic: every product and every partial sum is
  rounded to a double.
\<close>

theorem subtotal_is_sum_of_products_in_doubles:
  assumes "reachable pf s"
  shows "subtotal (returned calculateTotals_double s) =
           foldl (\<lambda>sum item. sum + quantity item * rate item) 0 (items s)"
proof -
  from assms have "list_all derived (items s)" by (rule reachable_derived)
  then show ?thesis by (simp only: returned_calculateTotals foldl_derived)
qed

text \<open>
  The example of the specification, entered into a fresh NewInvoice form: quantity 2 at
  rate 50, a second item of quantity 1 at rate 100, tax rate 10.
\<close>

theorem subtotal_is_sum_of_products_in_doubles_witness:
  "reachable example_parseFloat
     (run_double example_parseFloat example_session (NewInvoice ''2026-01-15'')) \<and>
   subtotal (returned calculateTotals_double
     (run_double example_parseFloat example_session (NewInvoice ''2026-01-15''))) = Finite 200"
proof -
  let ?s = "run_double example_parseFloat example_session (NewInvoice ''2026-01-15'')"
  have r: "reachable example_parseFloat ?s"
    by (intro run_double_reachable reachable.new)
  from subtotal_is_sum_of_products_in_doubles [OF r]
  have "subtotal (returned calculateTotals_double ?s) = Finite 200"
    by (simp add: example_items_double double_simps)
  with r show ?thesis by (simp only: simp_thms)
qed

text \<open>
  C2 as stated fails. In a fresh NewInvoice form the quantity 179, the rate 1 and the tax
  rate 10 are typed in. The subtotal is 179 and the tax amount is
  \<^verbatim>\<open>17.900000000000002\<close>, the product of 179 and the double nearest to 0.1; the formula
  \<open>subtotal * tax_rate / 100\<close> gives \<^verbatim>\<open>17.9\<close> in double arithmetic and 179/10 in
  exact arithmetic.
\<close>

theorem tax_amount_is_not_subtotal_times_rate_by_100:
  "reachable example_parseFloat
     (run_double example_parseFloat tax_session (NewInvoice ''2026-01-15'')) \<and>
   percentage (taxRate (invoiceData
     (run_double example_parseFloat tax_session (NewInvoice ''2026-01-15'')))) \<and>
   subtotal (returned calculateTotals_double
     (run_double example_parseFloat tax_session (NewInvoice ''2026-01-15''))) = Finite 179 \<and>
   taxRate (invoiceData
     (run_double example_parseFloat tax_session (NewInvoice ''2026-01-15''))) = Finite 10 \<and>
   taxAmount (returned calculateTotals_double
     (run_double example_parseFloat tax_session (NewInvoice ''2026-01-15''))) =
     Finite (5038402083120743 / 281474976710656) \<and>
   Finite 179 * Finite 10 / Finite 100 = Finite (2519201041560371 / 140737488355328) \<and>
   taxAmount (returned calculateTotals_double
     (run_double example_parseFloat tax_session (NewInvoice ''2026-01-15''))) \<noteq>
     Finite 179 * Finite 10 / Finite 100 \<and>
   taxAmount (returned calculateTotals_double
     (run_double example_parseFloat tax_session (NewInvoice ''2026-01-15''))) \<noteq>
     Finite (179 * 10 / 100)"
proof -
  let ?s = "run_double example_parseFloat tax_session (NewInvoice ''2026-01-15'')"
  have "reachable example_parseFloat ?s"
    by (intro run_double_reachable reachable.new)
  moreover have s: "subtotal (returned calculateTotals_double ?s) = Finite 179"
    by (simp add: returned_calculateTotals tax_items double_simps)
  moreover have "taxAmount (returned calculateTotals_double ?s) =
      Finite (5038402083120743 / 281474976710656)"
    by (simp add: returned_calculateTotals(2) s tax_taxRate round_double_1_10
        round_double_179_tenths)
  moreover have "Finite 179 * Finite 10 / Finite 100 =
      Finite (2519201041560371 / 140737488355328)"
    by (simp add: double_simps round_double_179_10)
  ultimately show ?thesis
    by (simp add: tax_taxRate)
qed

text \<open>
  C2, as the code has it. For every list of items and every tax rate, those of 0 to 100
  among them, the tax amount is the subtotal times the quotient \<open>tax rate / 100\<close>, the
  quotient and the product each rounded to a double, and the total is the sum of subtotal
  and tax amount, rounded to a double.
\<close>

theorem tax_and_total_in_doubles:
  "taxAmount (returned calculateTotals_double s) =
     subtotal (returned calculateTotals_double s) * (taxRate (invoiceData s) / Finite 100) \<and>
   total (returned calculateTotals_double s) =
     subtotal (returned calculateTotals_double s) + taxAmount (returned calculateTotals_double s)"
  by (simp only: returned_calculateTotals(2,3) simp_thms)

theorem tax_and_total_in_doubles_witness:
  "taxAmount (returned calculateTotals_double
     (run_double example_parseFloat example_session (NewInvoice ''2026-01-15''))) = Finite 20 \<and>
   total (returned calculateTotals_double
     (run_double example_parseFloat example_session (NewInvoice ''2026-01-15''))) = Finite 220"
proof -
  let ?s = "run_double example_parseFloat example_session (NewInvoice ''2026-01-15'')"
  have s: "subtotal (returned calculateTotals_double ?s) = Finite 200"
    by (simp add: returned_calculateTotals(1) example_items_double double_simps)
  note t = tax_and_total_in_doubles [of ?s]
  from t have a: "taxAmount (returned calculateTotals_double ?s) = Finite 20"
    by (simp add: s example_taxRate_double round_double_1_10 round_double_200_tenths)
  from t have "total (returned calculateTotals_double ?s) =
      subtotal (returned calculateTotals_double ?s) + taxAmount (returned calculateTotals_double ?s)"
    by (rule conjunct2)
  then have "total (returned calculateTotals_double ?s) = Finite 220"
    by (simp add: s a double_simps)
  with a show ?thesis by (simp only: simp_thms)
qed

lemma round_half_even_ge: "y - 1 / 2 \<le> of_int (round_half_even y)"
proof -
  have "y < of_int \<lfloor>y\<rfloor> + 1" by linarith
  then show ?thesis
    by (simp add: round_half_even_def Let_def)
qed

lemma round_double_overflow:
  assumes "2 ^ 1024 \<le> a"
  shows "round_double a = PlusInfinity"
proof -
  have "(0::rat) < 2 ^ 1024" by simp
  with assms have a: "0 < a" by linarith
  define e where "e = binade a"
  from binade_bounds [OF a] have b: "2 powi e \<le> a" "a < 2 powi (e + 1)"
    by (simp_all add: e_def)
  have e: "1024 \<le> e"
  proof (rule ccontr)
    assume "\<not> 1024 \<le> e"
    then have "(2::rat) powi (e + 1) \<le> 2 powi 1024" by (intro power_int_increasing) simp_all
    with b assms show False by simp
  qed
  define u :: rat where "u = 2 powi (e - 52)"
  have u0: "0 < u" by (simp add: u_def)
  have eu: "2 powi e = 2 ^ 52 * u"
  proof -
    have "(2::rat) powi e = 2 powi (52 + (e - 52))" by simp
    also have "\<dots> = 2 powi 52 * 2 powi (e - 52)" by (subst power_int_add) simp_all
    finally show ?thesis by (simp add: u_def)
  qed
  define n where "n = round_half_even (a / u)"
  have "2 ^ 52 \<le> a / u"
    using b(1) u0 by (simp add: eu pos_le_divide_eq)
  moreover have "a / u - 1 / 2 \<le> of_int n"
    unfolding n_def by (rule round_half_even_ge)
  ultimately have "(2::rat) ^ 52 - 1 < of_int n" by linarith
  moreover have "(2::rat) ^ 52 - 1 = of_int (2 ^ 52 - 1)" by simp
  ultimately have "(of_int (2 ^ 52 - 1) :: rat) < of_int n" by simp
  then have "2 ^ 52 - 1 < n" by (simp only: of_int_less_iff)
  then have "2 ^ 52 \<le> n" by simp
  then have "(of_int (2 ^ 52) :: rat) \<le> of_int n" by (simp only: of_int_le_iff)
  then have "(2::rat) ^ 52 \<le> of_int n" by simp
  then have "2 ^ 52 * u \<le> of_int n * u"
    using u0 by (simp only: mult_le_cancel_right_pos)
  with eu have "2 powi e \<le> of_int n * u" by simp
  moreover have "(2::rat) powi 1024 \<le> 2 powi e"
    using e by (intro power_int_increasing) simp_all
  ultimately have big: "2 ^ 1024 \<le> of_int n * u" by simp
  from e have m: "max e (- 1022) = e" by simp
  from a have "\<bar>a\<bar> = a" "a \<noteq> 0" "\<not> a < 0" by simp_all
  then show ?thesis
    using big
    by (simp add: round_double_def Let_def e_def [symmetric] m u_def [symmetric]
        n_def [symmetric])
qed

lemma round_double_1e308:
  "round_double (10 ^ 308) = Finite (5010420900022432 * 2 ^ 971)"
  using round_double_nearest [of 1023 "10 ^ 308" 5010420900022432] by simp

lemma round_double_1e21:
  "round_double 1000000000000000000000 = Finite 1000000000000000000000"
  using round_double_nearest [of 69 1000000000000000000000 7629394531250000]
  by simp

lemma round_double_9_2:
  "round_double (9 / 2) = Finite (9 / 2)"
  using round_double_nearest [of 2 "9 / 2" 5066549580791808]
  by simp

lemma round_double_11_100:
  "round_double (11 / 100) = Finite (7926335344172073 / 72057594037927936)"
  using round_double_nearest [of "- 4" "11 / 100" 7926335344172073]
  by simp

lemma round_double_tax_9_2:
  "round_double (71337018097548657 / 144115188075855872) =
     Finite (4458563631096791 / 9007199254740992)"
  using round_double_nearest [of "- 2" "71337018097548657 / 144115188075855872"
      8917127262193582]
  by simp

lemma round_double_total_9_2:
  "round_double (44990960277431255 / 9007199254740992) =
     Finite (5623870034678907 / 1125899906842624)"
  using round_double_nearest [of 2 "44990960277431255 / 9007199254740992" 5623870034678907]
  by simp

lemma parse_1e308:
  "example_parseFloat ''1e308'' = Finite (5010420900022432 * 2 ^ 971)"
proof -
  have "decimal_value ''1e308'' = Some (10 ^ 308)"
    by (simp add: decimal_value_def)
  then have "example_parseFloat ''1e308'' = round_double (10 ^ 308)"
    by (simp only: example_parseFloat_def option.case)
  then show ?thesis by (simp only: round_double_1e308)
qed

lemma parse_more:
  "example_parseFloat ''4.5'' = Finite (9 / 2)"
  "example_parseFloat ''1e21'' = Finite (10 ^ 21)"
  by (simp_all add: example_parseFloat_def decimal_value_def round_double_9_2
      round_double_1e21)

lemma cents_items:
  "items (run_double example_parseFloat cents_session (NewInvoice today)) =
     [\<lparr>item_id = ''1'', description = '''', quantity = Finite (9 / 2), rate = Finite 1,
       amount = Finite (9 / 2)\<rparr>]"
  by (simp add: run_double_def cents_session_def NewInvoice_def updateItem_def
      updated_item_def Let_def parse_example parse_more double_simps round_double_9_2)

lemma cents_taxRate:
  "taxRate (invoiceData (run_double example_parseFloat cents_session (NewInvoice today))) =
     Finite 11"
  by (simp add: run_double_def cents_session_def NewInvoice_def updateItem_def
      parse_example double_simps)

lemma cents_totals:
  "returned calculateTotals_double
     (run_double example_parseFloat cents_session (NewInvoice today)) =
     \<lparr>subtotal = Finite (9 / 2), taxAmount = Finite (4458563631096791 / 9007199254740992),
      total = Finite (5623870034678907 / 1125899906842624)\<rparr>"
  by (simp add: returned_def run_calculateTotals cents_items cents_taxRate double_simps
      round_double_9_2 round_double_11_100 round_double_tax_9_2 round_double_total_9_2)

lemma overflow_items:
  "items (run_double example_parseFloat overflow_session (NewInvoice today)) =
     [\<lparr>item_id = ''1'', description = '''', quantity = Finite (5010420900022432 * 2 ^ 971),
       rate = Finite 10, amount = PlusInfinity\<rparr>]"
  by (simp add: run_double_def overflow_session_def NewInvoice_def updateItem_def
      updated_item_def Let_def parse_example parse_1e308 double_simps round_double_overflow)

lemma overflow_taxRate:
  "taxRate (invoiceData (run_double example_parseFloat overflow_session (NewInvoice today))) =
     Finite 0"
  by (simp add: run_double_def overflow_session_def NewInvoice_def updateItem_def
      double_simps)

lemma overflow_totals:
  "returned calculateTotals_double
     (run_double example_parseFloat overflow_session (NewInvoice today)) =
     \<lparr>subtotal = PlusInfinity, taxAmount = NaN, total = NaN\<rparr>"
  by (simp add: returned_def run_calculateTotals overflow_items overflow_taxRate double_simps)

lemma large_items:
  "items (run_double example_parseFloat large_session (NewInvoice today)) =
     [\<lparr>item_id = ''1'', description = '''', quantity = Finite (10 ^ 21), rate = Finite 1,
       amount = Finite (10 ^ 21)\<rparr>]"
  by (simp add: run_double_def large_session_def NewInvoice_def updateItem_def
      updated_item_def Let_def parse_example parse_more double_simps round_double_1e21)

lemma large_taxRate:
  "taxRate (invoiceData (run_double example_parseFloat large_session (NewInvoice today))) =
     Finite 0"
  by (simp add: run_double_def large_session_def NewInvoice_def updateItem_def
      double_simps)

lemma large_totals:
  "returned calculateTotals_double
     (run_double example_parseFloat large_session (NewInvoice today)) =
     \<lparr>subtotal = Finite (10 ^ 21), taxAmount = Finite 0, total = Finite (10 ^ 21)\<rparr>"
  by (simp add: returned_def run_calculateTotals large_items large_taxRate double_simps
      round_double_1e21)

lemma two_decimals_0: "two_decimals 0 = ''0.00''"
proof -
  have "cents 0 = 0" by (rule cents_eq) simp_all
  then show ?thesis by (simp add: two_decimals_def decimal.simps digit_def)
qed

lemma two_decimals_cents:
  "two_decimals (9 / 2) = ''4.50''"
  "two_decimals (4458563631096791 / 9007199254740992) = ''0.49''"
  "two_decimals (5623870034678907 / 1125899906842624) = ''5.00''"
proof -
  have "cents (9 / 2) = 450" by (rule cents_eq) simp_all
  then show "two_decimals (9 / 2) = ''4.50''"
    by (simp add: two_decimals_def decimal.simps digit_def)
  have "cents (4458563631096791 / 9007199254740992) = 49" by (rule cents_eq) simp_all
  then show "two_decimals (4458563631096791 / 9007199254740992) = ''0.49''"
    by (simp add: two_decimals_def decimal.simps digit_def)
  have "cents (5623870034678907 / 1125899906842624) = 500" by (rule cents_eq) simp_all
  then show "two_decimals (5623870034678907 / 1125899906842624) = ''5.00''"
    by (simp add: two_decimals_def decimal.simps digit_def)
qed

lemma example_ToString_double_small:
  "example_ToString_double (Finite 0) = ''0''"
  "example_ToString_double (Finite 11) = ''11''"
  "example_ToString_double PlusInfinity = ''Infinity''"
  "example_ToString_double NaN = ''NaN''"
  by (simp_all add: example_ToString_double_def example_ToString_def decimal.simps digit_def)

lemma toFixed_double_two_decimals:
  "0 \<le> r \<Longrightarrow> r < 10 ^ 21 \<Longrightarrow> toFixed_double ts (Finite r) 2 = two_decimals r"
  by (simp add: toFixed_double_def toFixed_two_decimals)

lemma shown_with_two_decimals:
  assumes "nonnegative v"
  shows "nonnegative v \<and>
         (\<forall>r. v = Finite r \<and> r < 10 ^ 21 \<longrightarrow>
            toFixed_double ts v 2 = two_decimals r \<and>
            \<bar>of_nat (cents r) / 100 - r\<bar> \<le> 1 / 200)"
  using assms cents_close by (cases v) (auto simp: toFixed_double_two_decimals)

lemma finite_nonnegative_iff:
  "finite_nonnegative x \<longleftrightarrow> nonnegative x \<and> x \<noteq> PlusInfinity"
  by (cases x) simp_all

lemma percentage_quotient:
  "percentage x \<Longrightarrow> finite_nonnegative (x / Finite 100)"
  by (cases x) (simp_all add: round_double_fraction)

lemma totals_nonnegative:
  assumes "reachable pf s"
    and "list_all (\<lambda>item. finite_nonnegative (quantity item) \<and>
                          finite_nonnegative (rate item)) (items s)"
    and "percentage (taxRate (invoiceData s))"
    and "subtotal (returned calculateTotals_double s) \<noteq> PlusInfinity"
  shows "nonnegative (subtotal (returned calculateTotals_double s))"
    "nonnegative (taxAmount (returned calculateTotals_double s))"
    "nonnegative (total (returned calculateTotals_double s))"
proof -
  let ?t = "returned calculateTotals_double s"
  from assms(1) have "list_all derived (items s)" by (rule reachable_derived)
  with assms(2) have "list_all (\<lambda>item. nonnegative (amount item)) (items s)"
    by (auto simp: list_all_iff derived_def times_finite_nonnegative)
  moreover have "nonnegative (0::double)" by (simp add: zero_double_def)
  ultimately show a: "nonnegative (subtotal ?t)"
    by (simp only: returned_calculateTotals(1) foldl_nonnegative)
  with assms(4) have "finite_nonnegative (subtotal ?t)"
    by (simp add: finite_nonnegative_iff)
  moreover from assms(3) have "finite_nonnegative (taxRate (invoiceData s) / Finite 100)"
    by (rule percentage_quotient)
  ultimately have "nonnegative (subtotal ?t * (taxRate (invoiceData s) / Finite 100))"
    by (rule times_finite_nonnegative)
  then show b: "nonnegative (taxAmount ?t)"
    by (simp only: returned_calculateTotals(2))
  from a b have "nonnegative (subtotal ?t + taxAmount ?t)" by (rule plus_nonnegative)
  then show "nonnegative (total ?t)"
    by (simp only: returned_calculateTotals(3))
qed

text \<open>
  C4 as stated fails at two inputs, both typed into a fresh NewInvoice form with the tax
  rate 0. With the quantity \<^verbatim>\<open>1e308\<close> and the rate 10, both finite and not negative, the
  amount overflows: the subtotal is \<^verbatim>\<open>Infinity\<close>, the tax amount \<^verbatim>\<open>Infinity * 0\<close> and the
  total are NaN, which is not \<^verbatim>\<open>>= 0\<close>, and the summary shows \<^verbatim>\<open>$Infinity\<close> and \<^verbatim>\<open>$NaN\<close>.
  With the quantity \<^verbatim>\<open>1e21\<close> and the rate 1, the three values are not negative, and the
  summary shows the subtotal and the total in exponent notation, without fractional
  digits.
\<close>

theorem totals_overflow_and_exponent_display:
  "reachable example_parseFloat
     (run_double example_parseFloat overflow_session (NewInvoice ''2026-01-15'')) \<and>
   list_all (\<lambda>item. finite_nonnegative (quantity item) \<and> finite_nonnegative (rate item))
     (items (run_double example_parseFloat overflow_session (NewInvoice ''2026-01-15''))) \<and>
   percentage (taxRate (invoiceData
     (run_double example_parseFloat overflow_session (NewInvoice ''2026-01-15'')))) \<and>
   returned calculateTotals_double
     (run_double example_parseFloat overflow_session (NewInvoice ''2026-01-15'')) =
     \<lparr>subtotal = PlusInfinity, taxAmount = NaN, total = NaN\<rparr> \<and>
   \<not> nonnegative (taxAmount (returned calculateTotals_double
     (run_double example_parseFloat overflow_session (NewInvoice ''2026-01-15'')))) \<and>
   \<not> nonnegative (total (returned calculateTotals_double
     (run_double example_parseFloat overflow_session (NewInvoice ''2026-01-15'')))) \<and>
   summary example_ToString_double
     (run_double example_parseFloat overflow_session (NewInvoice ''2026-01-15'')) =
     [(''Subtotal:'', ''$Infinity''), (''Tax (0%):'', ''$NaN''), (''Total:'', ''$NaN'')] \<and>
   reachable example_parseFloat
     (run_double example_parseFloat large_session (NewInvoice ''2026-01-15'')) \<and>
   list_all (\<lambda>item. finite_nonnegative (quantity item) \<and> finite_nonnegative (rate item))
     (items (run_double example_parseFloat large_session (NewInvoice ''2026-01-15''))) \<and>
   percentage (taxRate (invoiceData
     (run_double example_parseFloat large_session (NewInvoice ''2026-01-15'')))) \<and>
   returned calculateTotals_double
     (run_double example_parseFloat large_session (NewInvoice ''2026-01-15'')) =
     \<lparr>subtotal = Finite (10 ^ 21), taxAmount = Finite 0, total = Finite (10 ^ 21)\<rparr> \<and>
   summary example_ToString_double
     (run_double example_parseFloat large_session (NewInvoice ''2026-01-15'')) =
     [(''Subtotal:'', ''$1e+21''), (''Tax (0%):'', ''$0.00''), (''Total:'', ''$1e+21'')]"
proof -
  let ?o = "run_double example_parseFloat overflow_session (NewInvoice ''2026-01-15'')"
  let ?l = "run_double example_parseFloat large_session (NewInvoice ''2026-01-15'')"
  have "reachable example_parseFloat ?o" "reachable example_parseFloat ?l"
    by (intro run_double_reachable reachable.new)+
  moreover have "summary example_ToString_double ?o =
     [(''Subtotal:'', ''$Infinity''), (''Tax (0%):'', ''$NaN''), (''Total:'', ''$NaN'')]"
    by (simp add: summary_def overflow_totals overflow_taxRate toFixed_double_def
        example_ToString_double_small)
  moreover have "toFixed_double example_ToString_double (Finite (10 ^ 21)) 2 = ''1e+21''"
    by (simp add: toFixed_double_def toFixed_def example_ToString_double_def
        example_ToString_def)
  then have "summary example_ToString_double ?l =
     [(''Subtotal:'', ''$1e+21''), (''Tax (0%):'', ''$0.00''), (''Total:'', ''$1e+21'')]"
    by (simp add: summary_def large_totals large_taxRate toFixed_double_two_decimals
        two_decimals_0 example_ToString_double_small)
  ultimately show ?thesis
    by (simp add: overflow_totals overflow_items overflow_taxRate large_totals large_items
        large_taxRate)
qed

text \<open>
  C4, as the code has it. In every state of the two forms in which the quantities and
  rates are finite and not negative, the tax rate is a double from 0 to 100, and the sum
  of the amounts has not overflowed: subtotal, tax amount and total are not negative
  (the total may be \<^verbatim>\<open>Infinity\<close>). \<open>calculateTotals\<close> returns them as they are; the Invoice
  Summary shows each as \<^verbatim>\<open>$\<close> and \<^verbatim>\<open>toFixed(2)\<close>, which for a finite value below \<open>10^21\<close>
  is the exact value of the double rounded to the nearest hundredth, the larger of two,
  written with two digits after the point; the rounded value is within half a hundredth
  of the double.
\<close>

theorem totals_nonnegative_shown_with_two_decimals:
  assumes "reachable pf s"
    and "list_all (\<lambda>item. finite_nonnegative (quantity item) \<and>
                          finite_nonnegative (rate item)) (items s)"
    and "percentage (taxRate (invoiceData s))"
    and "subtotal (returned calculateTotals_double s) \<noteq> PlusInfinity"
  shows "list_all
           (\<lambda>v. nonnegative v \<and>
                (\<forall>r. v = Finite r \<and> r < 10 ^ 21 \<longrightarrow>
                   toFixed_double ts v 2 = two_decimals r \<and>
                   \<bar>of_nat (cents r) / 100 - r\<bar> \<le> 1 / 200))
           [subtotal (returned calculateTotals_double s),
            taxAmount (returned calculateTotals_double s),
            total (returned calculateTotals_double s)] \<and>
         summary ts s =
           [(''Subtotal:'',
             ''$'' @ toFixed_double ts (subtotal (returned calculateTotals_double s)) 2),
            (''Tax ('' @ ts (taxRate (invoiceData s)) @ ''%):'',
             ''$'' @ toFixed_double ts (taxAmount (returned calculateTotals_double s)) 2),
            (''Total:'',
             ''$'' @ toFixed_double ts (total (returned calculateTotals_double s)) 2)]"
proof -
  note nn = totals_nonnegative [OF assms]
  have "list_all
           (\<lambda>v. nonnegative v \<and>
                (\<forall>r. v = Finite r \<and> r < 10 ^ 21 \<longrightarrow>
                   toFixed_double ts v 2 = two_decimals r \<and>
                   \<bar>of_nat (cents r) / 100 - r\<bar> \<le> 1 / 200))
           [subtotal (returned calculateTotals_double s),
            taxAmount (returned calculateTotals_double s),
            total (returned calculateTotals_double s)]"
    using nn [THEN shown_with_two_decimals [where ts = ts]]
    by (simp only: list.pred_inject; blast)
  moreover have "summary ts s =
           [(''Subtotal:'',
             ''$'' @ toFixed_double ts (subtotal (returned calculateTotals_double s)) 2),
            (''Tax ('' @ ts (taxRate (invoiceData s)) @ ''%):'',
             ''$'' @ toFixed_double ts (taxAmount (returned calculateTotals_double s)) 2),
            (''Total:'',
             ''$'' @ toFixed_double ts (total (returned calculateTotals_double s)) 2)]"
    by (simp add: summary_def Let_def)
  ultimately show ?thesis by (simp only: simp_thms)
qed

text \<open>
  A fresh NewInvoice form with the quantity 4.5, the rate 1 and the tax rate 11: the tax
  amount is the double \<^verbatim>\<open>0.495\<close>, which lies below 0.495 and is shown as \<^verbatim>\<open>$0.49\<close>; the
  total is the double \<^verbatim>\<open>4.995\<close>, which lies above 4.995 and is shown as \<^verbatim>\<open>$5.00\<close>.
\<close>

theorem totals_nonnegative_shown_with_two_decimals_witness:
  "reachable example_parseFloat
     (run_double example_parseFloat cents_session (NewInvoice ''2026-01-15'')) \<and>
   list_all (\<lambda>item. finite_nonnegative (quantity item) \<and> finite_nonnegative (rate item))
     (items (run_double example_parseFloat cents_session (NewInvoice ''2026-01-15''))) \<and>
   percentage (taxRate (invoiceData
     (run_double example_parseFloat cents_session (NewInvoice ''2026-01-15'')))) \<and>
   subtotal (returned calculateTotals_double
     (run_double example_parseFloat cents_session (NewInvoice ''2026-01-15''))) \<noteq>
     PlusInfinity \<and>
   list_all nonnegative
     [subtotal (returned calculateTotals_double
        (run_double example_parseFloat cents_session (NewInvoice ''2026-01-15''))),
      taxAmount (returned calculateTotals_double
        (run_double example_parseFloat cents_session (NewInvoice ''2026-01-15''))),
      total (returned calculateTotals_double
        (run_double example_parseFloat cents_session (NewInvoice ''2026-01-15'')))] \<and>
   summary example_ToString_double
     (run_double example_parseFloat cents_session (NewInvoice ''2026-01-15'')) =
     [(''Subtotal:'', ''$4.50''), (''Tax (11%):'', ''$0.49''), (''Total:'', ''$5.00'')]"
proof -
  let ?s = "run_double example_parseFloat cents_session (NewInvoice ''2026-01-15'')"
  let ?t = "returned calculateTotals_double ?s"
  have h1: "reachable example_parseFloat ?s"
    by (intro run_double_reachable reachable.new)
  have h2: "list_all (\<lambda>item. finite_nonnegative (quantity item) \<and>
                              finite_nonnegative (rate item)) (items ?s)"
    by (simp add: cents_items)
  have h3: "percentage (taxRate (invoiceData ?s))"
    by (simp add: cents_taxRate)
  have h4: "subtotal ?t \<noteq> PlusInfinity"
    by (simp add: cents_totals)
  note t = totals_nonnegative_shown_with_two_decimals
             [OF h1 h2 h3 h4, where ts = example_ToString_double]
  from t have shown: "list_all
           (\<lambda>v. nonnegative v \<and>
                (\<forall>r. v = Finite r \<and> r < 10 ^ 21 \<longrightarrow>
                   toFixed_double example_ToString_double v 2 = two_decimals r \<and>
                   \<bar>of_nat (cents r) / 100 - r\<bar> \<le> 1 / 200))
           [subtotal ?t, taxAmount ?t, total ?t]"
    by (rule conjunct1)
  then have nn: "list_all nonnegative [subtotal ?t, taxAmount ?t, total ?t]"
    by simp
  from shown have
    "toFixed_double example_ToString_double (Finite (9 / 2)) 2 = two_decimals (9 / 2)"
    "toFixed_double example_ToString_double
       (Finite (4458563631096791 / 9007199254740992)) 2 =
     two_decimals (4458563631096791 / 9007199254740992)"
    "toFixed_double example_ToString_double
       (Finite (5623870034678907 / 1125899906842624)) 2 =
     two_decimals (5623870034678907 / 1125899906842624)"
    by (simp_all add: cents_totals)
  moreover from t have "summary example_ToString_double ?s =
           [(''Subtotal:'', ''$'' @ toFixed_double example_ToString_double (subtotal ?t) 2),
            (''Tax ('' @ example_ToString_double (taxRate (invoiceData ?s)) @ ''%):'',
             ''$'' @ toFixed_double example_ToString_double (taxAmount ?t) 2),
            (''Total:'', ''$'' @ toFixed_double example_ToString_double (total ?t) 2)]"
    by (rule conjunct2)
  ultimately have "summary example_ToString_double ?s =
     [(''Subtotal:'', ''$4.50''), (''Tax (11%):'', ''$0.49''), (''Total:'', ''$5.00'')]"
    by (simp add: cents_totals cents_taxRate two_decimals_cents example_ToString_double_small)
  with h1 h2 h3 h4 nn show ?thesis by (simp only: simp_thms)
qed

lemma run_calculateTotals_totals_of:
  "run_state calculateTotals_double s = (totals_of (items s) (taxRate (invoiceData s)), s)"
  by (simp add: run_calculateTotals totals_of_def Let_def)

lemma example_loading:
  "loading (run_double example_parseFloat example_session (NewInvoice today)) = False"
  by (simp add: run_double_def example_session_def NewInvoice_def updateItem_def
      addItem_def Let_def)

lemma example_totals_double:
  "totals_of (items (run_double example_parseFloat example_session (NewInvoice today)))
     (taxRate (invoiceData (run_double example_parseFloat example_session (NewInvoice today)))) =
     \<lparr>subtotal = Finite 200, taxAmount = Finite 20, total = Finite 220\<rparr>"
  by (simp add: totals_of_def example_items_double example_taxRate_double double_simps
      round_double_1_10 round_double_200_tenths)

text \<open>
  C9. \<open>calculateTotals\<close> is pure. Run in any state of the component, it returns the totals
  that are a function of the item list and the tax rate of that state, and leaves the
  state as it was: it changes neither the items nor the form data nor anything else. Two
  evaluations in a row return the same totals and leave the state as it was. Two
  evaluations in states that agree on the item list and the tax rate return the same
  totals, whatever else differs between the states.
\<close>

theorem calculateTotals_is_pure:
  "run_state calculateTotals_double s = (totals_of (items s) (taxRate (invoiceData s)), s) \<and>
   run_state
     (do {
        first \<leftarrow> calculateTotals_double;
        second \<leftarrow> calculateTotals_double;
        State_Monad.return (first, second)
      }) s =
     ((totals_of (items s) (taxRate (invoiceData s)),
       totals_of (items s) (taxRate (invoiceData s))), s) \<and>
   (items s = items s' \<and> taxRate (invoiceData s) = taxRate (invoiceData s') \<longrightarrow>
      returned calculateTotals_double s = returned calculateTotals_double s')"
  by (simp add: run_calculateTotals_totals_of returned_def)

text \<open>
  The form of the example of the specification, and the same form while a save is
  running: the two states differ, and \<open>calculateTotals\<close> returns the same totals in both
  and changes neither.
\<close>

theorem calculateTotals_is_pure_witness:
  "run_state calculateTotals_double
     (run_double example_parseFloat example_session (NewInvoice ''2026-01-15'')) =
     (\<lparr>subtotal = Finite 200, taxAmount = Finite 20, total = Finite 220\<rparr>,
      run_double example_parseFloat example_session (NewInvoice ''2026-01-15'')) \<and>
   run_double example_parseFloat example_session (NewInvoice ''2026-01-15'') \<noteq>
     (run_double example_parseFloat example_session (NewInvoice ''2026-01-15''))
       \<lparr>loading := True\<rparr> \<and>
   returned calculateTotals_double
     (run_double example_parseFloat example_session (NewInvoice ''2026-01-15'')) =
   returned calculateTotals_double
     ((run_double example_parseFloat example_session (NewInvoice ''2026-01-15''))
        \<lparr>loading := True\<rparr>)"
proof -
  let ?s = "run_double example_parseFloat example_session (NewInvoice ''2026-01-15'')"
  note t = calculateTotals_is_pure [of ?s "?s\<lparr>loading := True\<rparr>"]
  from t have "run_state calculateTotals_double ?s =
      (totals_of (items ?s) (taxRate (invoiceData ?s)), ?s)"
    by (rule conjunct1)
  then have a: "run_state calculateTotals_double ?s =
      (\<lparr>subtotal = Finite 200, taxAmount = Finite 20, total = Finite 220\<rparr>, ?s)"
    by (simp only: example_totals_double)
  from t have "items ?s = items (?s\<lparr>loading := True\<rparr>) \<and>
      taxRate (invoiceData ?s) = taxRate (invoiceData (?s\<lparr>loading := True\<rparr>)) \<longrightarrow>
      returned calculateTotals_double ?s =
      returned calculateTotals_double (?s\<lparr>loading := True\<rparr>)"
    by (rule conjunct2 [THEN conjunct2])
  then have b: "returned calculateTotals_double ?s =
      returned calculateTotals_double (?s\<lparr>loading := True\<rparr>)"
    by simp
  have "loading ?s \<noteq> loading (?s\<lparr>loading := True\<rparr>)"
    by (simp add: example_loading)
  then have c: "?s \<noteq> ?s\<lparr>loading := True\<rparr>"
    by metis
  from a b c show ?thesis by (simp only: simp_thms)
qed


section \<open>Failures of download and print\<close>

text \<open>
  C5, as the code has it. When the renderer fails, \<open>downloadInvoicePDF\<close> fails with the
  renderer's error (its promise is rejected with it) and does nothing to the page.
  \<open>printInvoice\<close> reports no error at all: when the browser gives it no print window it
  returns having done nothing, and when the page has no invoice element it returns with the
  window opened and nothing written or printed.
\<close>

theorem download_reports_failure_print_does_not:
  "(toBlob (InvoicePDF h invoice client profile its format) = Inl e \<longrightarrow>
      downloadInvoicePDF toBlob h invoice client profile its format = Inl e) \<and>
   (\<forall>e'. printInvoice b format \<noteq> Inl e') \<and>
   (\<not> window_open b \<longrightarrow> printInvoice b format = Inr []) \<and>
   (window_open b \<and> invoice_content b = None \<longrightarrow> printInvoice b format = Inr [OpenWindow])"
  by (simp add: downloadInvoicePDF_def generateInvoicePDF_def printInvoice_def
      split: option.splits)

theorem download_reports_failure_print_does_not_witness:
  "downloadInvoicePDF failing_renderer example_host example_invoice example_client
     example_profile example_line_items A5 = Inl ''render failed'' \<and>
   printInvoice empty_page_browser A5 = Inr [OpenWindow]"
proof -
  note t = download_reports_failure_print_does_not
    [where toBlob = failing_renderer and h = example_host and invoice = example_invoice
       and client = example_client and profile = example_profile
       and its = example_line_items and format = A5 and e = "''render failed''"
       and b = empty_page_browser]
  have "failing_renderer (InvoicePDF example_host example_invoice example_client
     example_profile example_line_items A5) = Inl ''render failed''"
    by (simp add: failing_renderer_def)
  with t have "downloadInvoicePDF failing_renderer example_host example_invoice example_client
     example_profile example_line_items A5 = Inl ''render failed''"
    by blast
  moreover have "window_open empty_page_browser \<and> invoice_content empty_page_browser = None"
    by (simp add: empty_page_browser_def)
  with t have "printInvoice empty_page_browser A5 = Inr [OpenWindow]"
    by blast
  ultimately show ?thesis by (simp only: simp_thms)
qed

text \<open>
  C5 as stated fails for \<open>printInvoice\<close>: with the print window blocked, printing the
  invoice on A4 fails, and the function returns normally, with no effect and no error.
\<close>

theorem printInvoice_blocked_window_is_silent:
  "printInvoice blocked_browser A4 = Inr []"
  by (simp add: printInvoice_def blocked_browser_def)

section \<open>The two paper sizes\<close>

lemma texts_when_present:
  "concat (map texts (when_present a f)) =
     (case a of None \<Rightarrow> [] | Some v \<Rightarrow> if v = '''' then [] else texts (f v))"
  by (cases a) simp_all

lemma outline_when_present:
  "map outline_of (when_present a f) =
     (case a of None \<Rightarrow> [] | Some v \<Rightarrow> if v = '''' then [] else [outline_of (f v)])"
  by (cases a) simp_all

lemma outline_InvoicePDF:
  "outline_of (InvoicePDF h invoice client profile its A4) =
   outline_of (InvoicePDF h invoice client profile its A5)"
  by (simp add: InvoicePDF_def Let_def outline_when_present comp_def cong: option.case_cong if_cong)

lemma texts_InvoicePDF:
  "texts (InvoicePDF h invoice client profile its A4) =
   texts (InvoicePDF h invoice client profile its A5)"
  by (simp add: InvoicePDF_def Let_def texts_when_present comp_def cong: option.case_cong if_cong)

lemma styles_same_but_metrics: "same_but_metrics (createStyles A4) (createStyles A5)"
  by (simp add: same_but_metrics_def createStyles_def metrics_def)

lemma print_content_paper:
  "print_content (printInvoice b A4) = print_content (printInvoice b A5)"
  by (simp add: print_content_def printInvoice_def split: option.splits)

lemma style_of_same: "same_style (style_of (createStyles A4) n) (style_of (createStyles A5) n)"
  by (simp add: same_style_def style_of_def createStyles_def metrics_def)

lemma when_present_same:
  "(\<And>v. same_layout (f v) (g v)) \<Longrightarrow>
   list_all2 same_layout (when_present a f) (when_present a g)"
  by (cases a) simp_all

lemma map_same:
  "(\<And>x. same_layout (f x) (g x)) \<Longrightarrow> list_all2 same_layout (map f xs) (map g xs)"
  by (simp add: list_all2_map1 list_all2_map2 list_all2_same)

lemma InvoicePDF_same:
  "same_layout (InvoicePDF h invoice client profile its A4)
     (InvoicePDF h invoice client profile its A5)"
  unfolding InvoicePDF_def Let_def
  by (intro same_layout.intros list_all2_appendI list.rel_intros when_present_same map_same
      style_of_same)
     (simp_all add: same_style_def)

inductive_cases same_layout_Text: "same_layout (Text sts t) (Text sts' t')"

inductive_cases same_layout_View: "same_layout (View st ns) (View st' ns')"

lemma same_layout_tells_apart:
  "\<not> same_layout (Text [] ''Total:'') (Text [] ''Subtotal:'')"
  "\<not> same_layout (View [(''color'', Str ''#1e293b'')] []) (View [(''color'', Str ''#ffffff'')] [])"
  "\<not> same_layout (View [(''fontSize'', Num 12)] []) (View [] [])"
  "same_layout (View [(''fontSize'', Num 12)] []) (View [(''fontSize'', Num 10)] [])"
  by (auto elim: same_layout_Text same_layout_View simp: same_style_def metrics_def
      intro!: same_layout.intros)

text \<open>
  C6. For every invoice, client, profile and list of items, the documents of
  \<open>InvoicePDF\<close> for A4 and for A5 have the same texts in the same order (issuer, number,
  status, client, dates, descriptions, quantities, rates, amounts, totals, notes) and the
  same layout: the same elements in the same order, and at every element the same
  styles, with the same attributes and the same values but for the numbers of padding,
  margin, font size and width. The styles of the two sizes have the same attributes, and
  differ only in these numbers. The print window is given the same content for both
  sizes.
\<close>

theorem paper_sizes_same_content:
  "texts (InvoicePDF h invoice client profile its A4) =
     texts (InvoicePDF h invoice client profile its A5) \<and>
   same_layout (InvoicePDF h invoice client profile its A4)
     (InvoicePDF h invoice client profile its A5) \<and>
   outline_of (InvoicePDF h invoice client profile its A4) =
     outline_of (InvoicePDF h invoice client profile its A5) \<and>
   same_but_metrics (createStyles A4) (createStyles A5) \<and>
   print_content (printInvoice b A4) = print_content (printInvoice b A5)"
  using texts_InvoicePDF InvoicePDF_same outline_InvoicePDF styles_same_but_metrics
    print_content_paper
  by blast

lemma two_decimals_50: "two_decimals 50 = ''50.00''"
proof -
  have "cents 50 = 5000" by (rule cents_eq) simp_all
  then show ?thesis by (simp add: two_decimals_def decimal.simps digit_def)
qed

lemma two_decimals_100: "two_decimals 100 = ''100.00''"
proof -
  have "cents 100 = 10000" by (rule cents_eq) simp_all
  then show ?thesis by (simp add: two_decimals_def decimal.simps digit_def)
qed

lemma example_ToString_small:
  "example_ToString 1 = ''1''" "example_ToString 2 = ''2''"
  by (simp_all add: example_ToString_def decimal.simps digit_def)

lemma example_texts:
  "texts (InvoicePDF example_host example_invoice example_client example_profile
     example_line_items A4) =
     [''Grace Hopper'', ''1 Harbour Road'', ''grace@example.com'',
      ''INVOICE'', ''#INV-1700000000000'', ''SENT'',
      ''Bill To'', ''Ada Lovelace'', ''Analytical Engines'', ''ada@example.com'',
      ''Issue Date:'', ''Jan 15, 2026'', ''Due Date:'', ''Feb 15, 2026'',
      ''Description'', ''Qty'', ''Rate'', ''Amount'',
      ''Design'', ''2'', ''$50.00'', ''$100.00'',
      ''Hosting'', ''1'', ''$100.00'', ''$100.00'',
      ''Subtotal:'', ''$200.00'', ''Tax (10%):'', ''$20.00'', ''Total:'', ''$220.00'',
      ''Notes'', ''Net 30'']"
  by (simp add: InvoicePDF_def Let_def example_invoice_def example_client_def
      example_profile_def example_line_items_def example_host_def formatDate_def
      toUpperCase_def toFixed_two_decimals two_decimals_50 two_decimals_100
      two_decimals_200 two_decimals_20 two_decimals_220 example_ToString_small
      example_ToString_10)

theorem paper_sizes_same_content_witness:
  "texts (InvoicePDF example_host example_invoice example_client example_profile
     example_line_items A5) =
     [''Grace Hopper'', ''1 Harbour Road'', ''grace@example.com'',
      ''INVOICE'', ''#INV-1700000000000'', ''SENT'',
      ''Bill To'', ''Ada Lovelace'', ''Analytical Engines'', ''ada@example.com'',
      ''Issue Date:'', ''Jan 15, 2026'', ''Due Date:'', ''Feb 15, 2026'',
      ''Description'', ''Qty'', ''Rate'', ''Amount'',
      ''Design'', ''2'', ''$50.00'', ''$100.00'',
      ''Hosting'', ''1'', ''$100.00'', ''$100.00'',
      ''Subtotal:'', ''$200.00'', ''Tax (10%):'', ''$20.00'', ''Total:'', ''$220.00'',
      ''Notes'', ''Net 30''] \<and>
   same_layout
     (InvoicePDF example_host example_invoice example_client example_profile
        example_line_items A4)
     (InvoicePDF example_host example_invoice example_client example_profile
        example_line_items A5)"
proof -
  note t = paper_sizes_same_content
      [where h = example_host and invoice = example_invoice and client = example_client
         and profile = example_profile and its = example_line_items]
  from t have "texts (InvoicePDF example_host example_invoice example_client example_profile
          example_line_items A4) =
        texts (InvoicePDF example_host example_invoice example_client example_profile
          example_line_items A5)"
    by (rule conjunct1)
  then have "texts (InvoicePDF example_host example_invoice example_client example_profile
     example_line_items A5) =
     [''Grace Hopper'', ''1 Harbour Road'', ''grace@example.com'',
      ''INVOICE'', ''#INV-1700000000000'', ''SENT'',
      ''Bill To'', ''Ada Lovelace'', ''Analytical Engines'', ''ada@example.com'',
      ''Issue Date:'', ''Jan 15, 2026'', ''Due Date:'', ''Feb 15, 2026'',
      ''Description'', ''Qty'', ''Rate'', ''Amount'',
      ''Design'', ''2'', ''$50.00'', ''$100.00'',
      ''Hosting'', ''1'', ''$100.00'', ''$100.00'',
      ''Subtotal:'', ''$200.00'', ''Tax (10%):'', ''$20.00'', ''Total:'', ''$220.00'',
      ''Notes'', ''Net 30'']"
    by (simp only: example_texts)
  moreover from t have "same_layout
     (InvoicePDF example_host example_invoice example_client example_profile
        example_line_items A4)
     (InvoicePDF example_host example_invoice example_client example_profile
        example_line_items A5)"
    by (rule conjunct2 [THEN conjunct1])
  ultimately show ?thesis by (simp only: simp_thms)
qed

end
